theory Spec2Isabelle
  imports Complex_Main "HOL-Library.Word"
begin

unbundle bit_operations_syntax

section \<open>Machine types\<close>

text \<open>
  The driver is C on Linux: \<open>unsigned int\<close>, \<open>uint32_t\<close> and \<open>CARD32\<close> are 32-bit words
  whose arithmetic wraps, \<open>BOOL\<close> is the one-byte \<open>CARD8\<close> of the X protocol headers, and an
  \<open>int\<close> is read off a word with \<open>sint\<close>. Values of type \<open>int\<close> and \<open>enum\<close> that the
  driver only passes on or compares are integers. A \<open>float\<close> or \<open>double\<close> is modelled
  by the real number it denotes: the driver copies these values and compares them with
  constants, and the one product it computes is rounded as a product of doubles is
  (section on double arithmetic below). NaN, the infinities and the narrowing of a
  \<open>double\<close> to a \<open>float\<close> are outside the model.
\<close>

type_synonym u32 = "32 word"
type_synonym BOOL = "8 word"
type_synonym Atom = nat

definition FALSE :: BOOL where "FALSE = 0"
definition TRUE :: BOOL where "TRUE = 1"

text \<open>The X protocol's request results and predefined atoms that the driver names.\<close>

definition Success :: int where "Success = 0"
definition BadValue :: int where "BadValue = 2"
definition BadMatch :: int where "BadMatch = 8"
definition BadAccess :: int where "BadAccess = 10"

definition XA_CARDINAL :: Atom where "XA_CARDINAL = 6"
definition XA_INTEGER :: Atom where "XA_INTEGER = 19"

definition TOUCH_MAX_SLOTS :: nat where "TOUCH_MAX_SLOTS = 15"

text \<open>Messages written to the server log: the message type and the format string.\<close>

datatype MessageType = X_ERROR | X_INFO | X_BUG
type_synonym logmsg = "MessageType \<times> string"

section \<open>Button numbering\<close>

text \<open>The button codes of \<open>linux/input.h\<close> that the two conversions name.\<close>

definition BTN_LEFT :: u32 where "BTN_LEFT = 0x110"
definition BTN_RIGHT :: u32 where "BTN_RIGHT = 0x111"
definition BTN_MIDDLE :: u32 where "BTN_MIDDLE = 0x112"
definition BTN_SIDE :: u32 where "BTN_SIDE = 0x113"

definition btn_linux2xorg :: "u32 \<Rightarrow> u32" where
  "btn_linux2xorg b =
     (if b = 0 then 0
      else if b = BTN_LEFT then 1
      else if b = BTN_MIDDLE then 2
      else if b = BTN_RIGHT then 3
      else 8 + b - BTN_SIDE)"

definition btn_xorg2linux :: "u32 \<Rightarrow> u32" where
  "btn_xorg2linux b =
     (if b = 0 then 0
      else if b = 1 then BTN_LEFT
      else if b = 2 then BTN_MIDDLE
      else if b = 3 then BTN_RIGHT
      else b - 8 + BTN_SIDE)"

section \<open>The device abstraction\<close>

text \<open>
  The input library is an external collaborator of the driver. A device is modelled by
  what its capability and configuration queries return, one field per query the driver
  calls, and by how it answers a configuration request: a request that succeeds stores
  the value so that the matching query returns it, any other answer leaves the device as
  it was. The bit values of the configuration enumerations are those of \<open>libinput.h\<close>.
\<close>

definition LIBINPUT_CONFIG_SEND_EVENTS_ENABLED :: u32 where
  "LIBINPUT_CONFIG_SEND_EVENTS_ENABLED = 0"
definition LIBINPUT_CONFIG_SEND_EVENTS_DISABLED :: u32 where
  "LIBINPUT_CONFIG_SEND_EVENTS_DISABLED = 1"
definition LIBINPUT_CONFIG_SEND_EVENTS_DISABLED_ON_EXTERNAL_MOUSE :: u32 where
  "LIBINPUT_CONFIG_SEND_EVENTS_DISABLED_ON_EXTERNAL_MOUSE = 2"

definition LIBINPUT_CONFIG_SCROLL_NO_SCROLL :: u32 where
  "LIBINPUT_CONFIG_SCROLL_NO_SCROLL = 0"
definition LIBINPUT_CONFIG_SCROLL_2FG :: u32 where
  "LIBINPUT_CONFIG_SCROLL_2FG = 1"
definition LIBINPUT_CONFIG_SCROLL_EDGE :: u32 where
  "LIBINPUT_CONFIG_SCROLL_EDGE = 2"
definition LIBINPUT_CONFIG_SCROLL_ON_BUTTON_DOWN :: u32 where
  "LIBINPUT_CONFIG_SCROLL_ON_BUTTON_DOWN = 4"

definition LIBINPUT_CONFIG_CLICK_METHOD_NONE :: u32 where
  "LIBINPUT_CONFIG_CLICK_METHOD_NONE = 0"
definition LIBINPUT_CONFIG_CLICK_METHOD_BUTTON_AREAS :: u32 where
  "LIBINPUT_CONFIG_CLICK_METHOD_BUTTON_AREAS = 1"
definition LIBINPUT_CONFIG_CLICK_METHOD_CLICKFINGER :: u32 where
  "LIBINPUT_CONFIG_CLICK_METHOD_CLICKFINGER = 2"

datatype libinput_config_status =
    LIBINPUT_CONFIG_STATUS_SUCCESS
  | LIBINPUT_CONFIG_STATUS_UNSUPPORTED
  | LIBINPUT_CONFIG_STATUS_INVALID

datatype config_request =
    tap_set_enabled int
  | tap_set_drag_lock_enabled int
  | accel_set_speed real
  | scroll_set_natural_scroll_enabled int
  | send_events_set_mode u32
  | calibration_set_matrix "real list"
  | left_handed_set int
  | scroll_set_method u32
  | scroll_set_button u32
  | click_set_method u32
  | middle_emulation_set_enabled int
  | halfkey_set_enabled int

record libinput_device =
  tap_get_finger_count :: int
  tap_get_enabled :: int
  tap_get_drag_lock_enabled :: int
  accel_is_available :: int
  accel_get_speed :: real
  scroll_has_natural_scroll :: int
  scroll_get_natural_scroll_enabled :: int
  send_events_get_modes :: u32
  send_events_get_mode :: u32
  calibration_has_matrix :: int
  calibration_get_matrix6 :: "real list"
  left_handed_is_available :: int
  left_handed_get :: int
  scroll_get_methods :: u32
  scroll_get_method :: u32
  scroll_get_button :: u32
  click_get_methods :: u32
  click_get_method :: u32
  middle_emulation_is_available :: int
  middle_emulation_get_enabled :: int
  middle_emulation_get_default_enabled :: int
  halfkey_is_available :: int
  halfkey_get_enabled :: int
  halfkey_get_default_enabled :: int
  pointer_has_button :: "u32 \<Rightarrow> int"
  respond :: "config_request \<Rightarrow> libinput_config_status"

text \<open>The state a successful request leaves behind.\<close>

fun store :: "config_request \<Rightarrow> libinput_device \<Rightarrow> libinput_device" where
  "store (tap_set_enabled v) d = d\<lparr>tap_get_enabled := v\<rparr>"
| "store (tap_set_drag_lock_enabled v) d = d\<lparr>tap_get_drag_lock_enabled := v\<rparr>"
| "store (accel_set_speed v) d = d\<lparr>accel_get_speed := v\<rparr>"
| "store (scroll_set_natural_scroll_enabled v) d = d\<lparr>scroll_get_natural_scroll_enabled := v\<rparr>"
| "store (send_events_set_mode v) d = d\<lparr>send_events_get_mode := v\<rparr>"
| "store (calibration_set_matrix m) d = d\<lparr>calibration_get_matrix6 := take 6 m\<rparr>"
| "store (left_handed_set v) d = d\<lparr>left_handed_get := v\<rparr>"
| "store (scroll_set_method v) d = d\<lparr>scroll_get_method := v\<rparr>"
| "store (scroll_set_button v) d = d\<lparr>scroll_get_button := v\<rparr>"
| "store (click_set_method v) d = d\<lparr>click_get_method := v\<rparr>"
| "store (middle_emulation_set_enabled v) d = d\<lparr>middle_emulation_get_enabled := v\<rparr>"
| "store (halfkey_set_enabled v) d = d\<lparr>halfkey_get_enabled := v\<rparr>"

definition config_set ::
  "libinput_device \<Rightarrow> config_request \<Rightarrow> libinput_config_status \<times> libinput_device" where
  "config_set d rq =
     (if respond d rq = LIBINPUT_CONFIG_STATUS_SUCCESS
      then (LIBINPUT_CONFIG_STATUS_SUCCESS, store rq d)
      else (respond d rq, d))"

text \<open>
  \<open>libinput_device_config_calibration_get_matrix\<close> writes the six entries of the
  device's matrix over the front of the caller's array.
\<close>

definition overwrite :: "'a list \<Rightarrow> 'a list \<Rightarrow> 'a list" where
  "overwrite src dst = take (length dst) (src @ drop (length src) dst)"

definition calibration_get_matrix :: "libinput_device \<Rightarrow> real list \<Rightarrow> real list" where
  "calibration_get_matrix d m = overwrite (take 6 (calibration_get_matrix6 d)) m"

section \<open>Driver state\<close>

text \<open>
  \<open>struct options\<close> and the fields of \<open>struct xf86libinput\<close> that the modelled
  functions read or write. \<open>device\<close> is \<open>None\<close> for the \<open>NULL\<close> pointer a disabled
  device holds. An \<open>InputInfo\<close> is a \<open>pInfo\<close>: \<open>dev\<close> identifies its \<open>DeviceIntPtr\<close>,
  \<open>dev_on\<close> is \<open>dev->public.on\<close> and \<open>driver_data\<close> is \<open>pInfo->private\<close>.
\<close>

record options =
  tapping :: BOOL
  tap_drag_lock :: BOOL
  natural_scrolling :: BOOL
  left_handed :: BOOL
  middle_emulation :: BOOL
  halfkey :: BOOL
  sendevents :: u32
  scroll_button :: u32
  speed :: real
  matrix :: "real list"
  scroll_method :: u32
  click_method :: u32
  btnmap :: "8 word list"

type_synonym ValuatorMask = "nat \<rightharpoonup> real"

record xf86libinput =
  device :: "libinput_device option"
  vdist :: int
  hdist :: int
  vdist_remainder :: int
  hdist_remainder :: int
  has_abs :: BOOL
  valuators :: ValuatorMask
  options :: options

record InputInfo =
  dev :: nat
  dev_on :: bool
  driver_data :: xf86libinput

text \<open>
  The part of \<open>xf86libinput_pre_init\<close> that sets up the translation state: the driver
  data is allocated zeroed and both scroll distances are set to 15.
\<close>

definition pre_init_scroll :: "xf86libinput \<Rightarrow> xf86libinput" where
  "pre_init_scroll dd = dd\<lparr>vdist := 15, hdist := 15\<rparr>"

section \<open>Double arithmetic\<close>






section \<open>Event translation\<close>

datatype libinput_event_type =
    LIBINPUT_EVENT_NONE
  | LIBINPUT_EVENT_DEVICE_ADDED
  | LIBINPUT_EVENT_DEVICE_REMOVED
  | LIBINPUT_EVENT_KEYBOARD_KEY
  | LIBINPUT_EVENT_POINTER_MOTION
  | LIBINPUT_EVENT_POINTER_MOTION_ABSOLUTE
  | LIBINPUT_EVENT_POINTER_BUTTON
  | LIBINPUT_EVENT_POINTER_AXIS
  | LIBINPUT_EVENT_TOUCH_DOWN
  | LIBINPUT_EVENT_TOUCH_UP
  | LIBINPUT_EVENT_TOUCH_MOTION
  | LIBINPUT_EVENT_TOUCH_CANCEL
  | LIBINPUT_EVENT_TOUCH_FRAME

datatype libinput_button_state =
    LIBINPUT_BUTTON_STATE_RELEASED
  | LIBINPUT_BUTTON_STATE_PRESSED

datatype libinput_pointer_axis =
    LIBINPUT_POINTER_AXIS_SCROLL_VERTICAL
  | LIBINPUT_POINTER_AXIS_SCROLL_HORIZONTAL

text \<open>The last constructor stands for any value of the enumeration the driver does not name.\<close>

datatype libinput_pointer_axis_source =
    LIBINPUT_POINTER_AXIS_SOURCE_WHEEL
  | LIBINPUT_POINTER_AXIS_SOURCE_FINGER
  | LIBINPUT_POINTER_AXIS_SOURCE_CONTINUOUS
  | LIBINPUT_POINTER_AXIS_SOURCE_other int

text \<open>An event of the library is what its accessors return.\<close>

record libinput_event_pointer =
  get_button :: u32
  get_button_state :: libinput_button_state
  get_axis_source :: libinput_pointer_axis_source
  has_axis :: "libinput_pointer_axis \<Rightarrow> bool"
  get_axis_value :: "libinput_pointer_axis \<Rightarrow> real"
  get_axis_value_discrete :: "libinput_pointer_axis \<Rightarrow> real"

record libinput_event_touch =
  get_slot :: int
  get_x_transformed :: "u32 \<Rightarrow> real"
  get_y_transformed :: "u32 \<Rightarrow> real"

definition TOUCH_AXIS_MAX :: u32 where "TOUCH_AXIS_MAX = 0xffff"

text \<open>The calls into the server that deliver translated events.\<close>

datatype xi_touch_type = XI_TouchBegin | XI_TouchUpdate | XI_TouchEnd
datatype valuator_mode = Relative | Absolute

datatype xevent =
    xf86PostMotionEventM nat valuator_mode ValuatorMask
  | xf86PostButtonEvent nat valuator_mode int bool
  | xf86PostKeyboardEvent nat int bool
  | xf86PostTouchEvent nat u32 xi_touch_type ValuatorMask

definition xf86libinput_handle_button ::
  "InputInfo \<Rightarrow> libinput_event_pointer \<Rightarrow> xevent list" where
  "xf86libinput_handle_button pInfo event =
     (let button = sint (btn_linux2xorg (get_button event));
          is_press = (get_button_state event = LIBINPUT_BUTTON_STATE_PRESSED)
      in [xf86PostButtonEvent (dev pInfo) Relative button is_press])"


definition set_valuators :: "InputInfo \<Rightarrow> ValuatorMask \<Rightarrow> InputInfo" where
  "set_valuators pInfo m = pInfo\<lparr>driver_data := (driver_data pInfo)\<lparr>valuators := m\<rparr>\<rparr>"


text \<open>
  The touch handler keeps two function-level statics, shared by every device of the
  process: the next identity and the identity of each slot. Indexing \<open>touchids\<close> with a
  slot outside \<open>0 ..< TOUCH_MAX_SLOTS\<close> is undefined behaviour in C; the model stops
  with a fault there.
\<close>

record touch_statics =
  next_touchid :: u32
  touchids :: "u32 list"

definition touch_statics_init :: touch_statics where
  "touch_statics_init = \<lparr>next_touchid = 0, touchids = replicate TOUCH_MAX_SLOTS 0\<rparr>"

datatype fault = touchids_out_of_bounds int | null_device_dereference

definition xf86libinput_handle_touch ::
  "InputInfo \<Rightarrow> libinput_event_touch \<Rightarrow> libinput_event_type \<Rightarrow> touch_statics
     \<Rightarrow> fault + (touch_statics \<times> InputInfo \<times> xevent list)" where
  "xf86libinput_handle_touch pInfo event event_type st =
     (let slot = get_slot event
      in if event_type \<noteq> LIBINPUT_EVENT_TOUCH_DOWN \<and>
            event_type \<noteq> LIBINPUT_EVENT_TOUCH_UP \<and>
            event_type \<noteq> LIBINPUT_EVENT_TOUCH_MOTION
         then Inr (st, pInfo, [])
         else if slot < 0 \<or> int TOUCH_MAX_SLOTS \<le> slot
         then Inl (touchids_out_of_bounds slot)
         else
           let i = nat slot;
               st' = (if event_type = LIBINPUT_EVENT_TOUCH_DOWN
                      then st\<lparr>touchids := (touchids st)[i := next_touchid st],
                              next_touchid := next_touchid st + 1\<rparr>
                      else st);
               type = (if event_type = LIBINPUT_EVENT_TOUCH_DOWN then XI_TouchBegin
                       else if event_type = LIBINPUT_EVENT_TOUCH_UP then XI_TouchEnd
                       else XI_TouchUpdate);
               m = (if event_type \<noteq> LIBINPUT_EVENT_TOUCH_UP
                    then [0 \<mapsto> get_x_transformed event TOUCH_AXIS_MAX,
                          1 \<mapsto> get_y_transformed event TOUCH_AXIS_MAX]
                    else Map.empty)
           in Inr (st', set_valuators pInfo m,
                   [xf86PostTouchEvent (dev pInfo) (touchids st' ! i) type m]))"

text \<open>
  A run of the dispatch loop over touch events, each with the \<open>pInfo\<close> of the device it
  comes from. The statics are threaded through the calls; the handler reads nothing of
  the device but its identity and overwrites the valuator mask before use, so the
  devices' own state is not threaded.
\<close>

fun dispatch_touch ::
  "touch_statics \<Rightarrow> (InputInfo \<times> libinput_event_type \<times> libinput_event_touch) list
     \<Rightarrow> fault + (touch_statics \<times> xevent list)" where
  "dispatch_touch st [] = Inr (st, [])"
| "dispatch_touch st ((pInfo, ty, ev) # rest) =
     (case xf86libinput_handle_touch pInfo ev ty st of
        Inl f \<Rightarrow> Inl f
      | Inr (st', _, posted) \<Rightarrow>
          (case dispatch_touch st' rest of
             Inl f \<Rightarrow> Inl f
           | Inr (st'', posted') \<Rightarrow> Inr (st'', posted @ posted')))"


section \<open>Option resolution\<close>

text \<open>
  \<open>pInfo->options\<close> is the server's list of configured options. The model keeps one
  field per option name the driver asks for, \<open>None\<close> for an option that is not set, and
  the server's accessors return the value set or else the default they are given.
\<close>

record user_options =
  opt_Tapping :: "bool option"
  opt_TappingDragLock :: "bool option"
  opt_AccelSpeed :: "real option"
  opt_NaturalScrolling :: "bool option"
  opt_SendEventsMode :: "string option"
  opt_CalibrationMatrix :: "string option"
  opt_LeftHanded :: "bool option"
  opt_ScrollMethod :: "string option"
  opt_ScrollButton :: "int option"
  opt_ClickMethod :: "string option"
  opt_MiddleEmulation :: "bool option"
  opt_Halfkey :: "bool option"

definition xf86SetBoolOption :: "bool option \<Rightarrow> int \<Rightarrow> int" where
  "xf86SetBoolOption opt deflt =
     (case opt of None \<Rightarrow> deflt | Some b \<Rightarrow> (if b then 1 else 0))"

definition xf86SetRealOption :: "real option \<Rightarrow> real \<Rightarrow> real" where
  "xf86SetRealOption opt deflt = (case opt of None \<Rightarrow> deflt | Some v \<Rightarrow> v)"

definition xf86SetIntOption :: "int option \<Rightarrow> int \<Rightarrow> int" where
  "xf86SetIntOption opt deflt = (case opt of None \<Rightarrow> deflt | Some v \<Rightarrow> v)"

text \<open>
  \<open>strncasecmp(s1, s2, n) == 0\<close> on strings without an embedded NUL: the first \<open>n\<close>
  characters agree up to the case of ASCII letters.
\<close>

definition tolower :: "char \<Rightarrow> char" where
  "tolower c =
     (if (65 :: nat) \<le> of_char c \<and> of_char c \<le> (90 :: nat)
      then char_of (of_char c + (32 :: nat)) else c)"

definition strncasecmp_eq :: "string \<Rightarrow> string \<Rightarrow> nat \<Rightarrow> bool" where
  "strncasecmp_eq s1 s2 n = (map tolower (take n s1) = map tolower (take n s2))"

text \<open>
  Each resolver returns the resolved value, the device as the resolver's requests left
  it, and the messages it logged. Conversions between \<open>int\<close> and \<open>BOOL\<close> are the
  truncation and zero extension of C.
\<close>

definition xf86libinput_parse_tap_option ::
  "user_options \<Rightarrow> libinput_device \<Rightarrow> BOOL \<times> libinput_device \<times> logmsg list" where
  "xf86libinput_parse_tap_option uo d =
     (if tap_get_finger_count d = 0 then (FALSE, d, [])
      else
        let tap = (word_of_int (xf86SetBoolOption (opt_Tapping uo) (tap_get_enabled d)) :: BOOL)
        in case config_set d (tap_set_enabled (uint tap)) of
             (st, d') \<Rightarrow>
               if st \<noteq> LIBINPUT_CONFIG_STATUS_SUCCESS
               then (word_of_int (tap_get_enabled d'), d',
                     [(X_ERROR, ''Failed to set Tapping to %d'')])
               else (tap, d', []))"

definition xf86libinput_parse_tap_drag_lock_option ::
  "user_options \<Rightarrow> libinput_device \<Rightarrow> BOOL \<times> libinput_device \<times> logmsg list" where
  "xf86libinput_parse_tap_drag_lock_option uo d =
     (if tap_get_finger_count d = 0 then (FALSE, d, [])
      else
        let drag_lock = (word_of_int (xf86SetBoolOption (opt_TappingDragLock uo)
                                        (tap_get_drag_lock_enabled d)) :: BOOL)
        in case config_set d (tap_set_drag_lock_enabled (uint drag_lock)) of
             (st, d') \<Rightarrow>
               if st \<noteq> LIBINPUT_CONFIG_STATUS_SUCCESS
               then (word_of_int (tap_get_drag_lock_enabled d'), d',
                     [(X_ERROR, ''Failed to set Tapping Drag Lock to %d'')])
               else (drag_lock, d', []))"

definition xf86libinput_parse_accel_option ::
  "user_options \<Rightarrow> libinput_device \<Rightarrow> real \<times> libinput_device \<times> logmsg list" where
  "xf86libinput_parse_accel_option uo d =
     (if accel_is_available d = 0 then (0, d, [])
      else
        let speed = xf86SetRealOption (opt_AccelSpeed uo) (accel_get_speed d)
        in case config_set d (accel_set_speed speed) of
             (st, d') \<Rightarrow>
               if st \<noteq> LIBINPUT_CONFIG_STATUS_SUCCESS
               then (accel_get_speed d', d',
                     [(X_ERROR, ''Invalid speed %.2f, using 0 instead'')])
               else (speed, d', []))"

definition xf86libinput_parse_natscroll_option ::
  "user_options \<Rightarrow> libinput_device \<Rightarrow> BOOL \<times> libinput_device \<times> logmsg list" where
  "xf86libinput_parse_natscroll_option uo d =
     (if scroll_has_natural_scroll d = 0 then (FALSE, d, [])
      else
        let natural_scroll = (word_of_int (xf86SetBoolOption (opt_NaturalScrolling uo)
                                  (scroll_get_natural_scroll_enabled d)) :: BOOL)
        in case config_set d (scroll_set_natural_scroll_enabled (uint natural_scroll)) of
             (st, d') \<Rightarrow>
               if st \<noteq> LIBINPUT_CONFIG_STATUS_SUCCESS
               then (word_of_int (scroll_get_natural_scroll_enabled d'), d',
                     [(X_ERROR, ''Failed to set NaturalScrolling to %d'')])
               else (natural_scroll, d', []))"

definition xf86libinput_parse_sendevents_option ::
  "user_options \<Rightarrow> libinput_device \<Rightarrow> u32 \<times> libinput_device \<times> logmsg list" where
  "xf86libinput_parse_sendevents_option uo d =
     (if send_events_get_modes d = LIBINPUT_CONFIG_SEND_EVENTS_ENABLED
      then (LIBINPUT_CONFIG_SEND_EVENTS_ENABLED, d, [])
      else
        let (mode, lg) =
              (case opt_SendEventsMode uo of
                 None \<Rightarrow> (send_events_get_mode d, [])
               | Some strmode \<Rightarrow>
                   if strmode = ''enabled''
                   then (LIBINPUT_CONFIG_SEND_EVENTS_ENABLED, [])
                   else if strmode = ''disabled''
                   then (LIBINPUT_CONFIG_SEND_EVENTS_DISABLED, [])
                   else if strmode = ''disabled-on-external-mouse''
                   then (LIBINPUT_CONFIG_SEND_EVENTS_DISABLED_ON_EXTERNAL_MOUSE, [])
                   else (send_events_get_mode d, [(X_ERROR, ''Invalid SendeventsMode: %s'')]))
        in case config_set d (send_events_set_mode mode) of
             (st, d') \<Rightarrow>
               if st \<noteq> LIBINPUT_CONFIG_STATUS_SUCCESS
               then (send_events_get_mode d', d',
                     lg @ [(X_ERROR, ''Failed to set SendEventsMode %u'')])
               else (mode, d', lg))"

text \<open>
  The calibration resolver starts from the identity matrix, returns it for a device
  without calibration, and otherwise reads the device's matrix into it. \<open>sscanf\<close>
  stands for the C library's conversion of the option string with the format of nine
  \<open>%f\<close>: it returns the values converted, in order; they are written over the front
  of the local matrix, and their number is what \<open>sscanf\<close> returns.
\<close>

definition xf86libinput_parse_calibration_option ::
  "(string \<Rightarrow> real list) \<Rightarrow> user_options \<Rightarrow> libinput_device
     \<Rightarrow> real list \<times> libinput_device \<times> logmsg list" where
  "xf86libinput_parse_calibration_option sscanf uo d =
     (let matrix0 = [1, 0, 0, 0, 1, 0, 0, 0, 1]
      in if calibration_has_matrix d = 0 then (matrix0, d, [])
         else
           let matrix1 = calibration_get_matrix d matrix0
           in case opt_CalibrationMatrix uo of
                None \<Rightarrow> (matrix1, d, [])
              | Some str \<Rightarrow>
                  let scanned = take 9 (sscanf str);
                      matrix2 = overwrite scanned matrix1
                  in if length scanned \<noteq> 9
                     then (matrix1, d, [(X_ERROR, ''Invalid matrix: %s, using default'')])
                     else
                       case config_set d (calibration_set_matrix matrix2) of
                         (st, d') \<Rightarrow>
                           if st = LIBINPUT_CONFIG_STATUS_SUCCESS
                           then (matrix2, d', [])
                           else (matrix1, d',
                                 [(X_ERROR, ''Failed to apply matrix: %s, using default'')]))"

definition xf86libinput_parse_lefthanded_option ::
  "user_options \<Rightarrow> libinput_device \<Rightarrow> BOOL \<times> libinput_device \<times> logmsg list" where
  "xf86libinput_parse_lefthanded_option uo d =
     (if left_handed_is_available d = 0 then (FALSE, d, [])
      else
        let lh = (word_of_int (xf86SetBoolOption (opt_LeftHanded uo)
                                 (left_handed_get d)) :: BOOL)
        in case config_set d (left_handed_set (uint lh)) of
             (st, d') \<Rightarrow>
               if st \<noteq> LIBINPUT_CONFIG_STATUS_SUCCESS
               then (word_of_int (left_handed_get d'), d',
                     [(X_ERROR, ''Failed to set LeftHanded to %d'')])
               else (lh, d', []))"

definition xf86libinput_parse_scroll_option ::
  "user_options \<Rightarrow> libinput_device \<Rightarrow> u32 \<times> libinput_device \<times> logmsg list" where
  "xf86libinput_parse_scroll_option uo d =
     (if scroll_get_methods d = LIBINPUT_CONFIG_SCROLL_NO_SCROLL
      then (LIBINPUT_CONFIG_SCROLL_NO_SCROLL, d, [])
      else
        case opt_ScrollMethod uo of
          None \<Rightarrow> (scroll_get_method d, d, [])
        | Some method \<Rightarrow>
            if strncasecmp_eq method ''twofinger'' 9
            then (LIBINPUT_CONFIG_SCROLL_2FG, d, [])
            else if strncasecmp_eq method ''edge'' 4
            then (LIBINPUT_CONFIG_SCROLL_EDGE, d, [])
            else if strncasecmp_eq method ''button'' 6
            then (LIBINPUT_CONFIG_SCROLL_ON_BUTTON_DOWN, d, [])
            else if strncasecmp_eq method ''none'' 4
            then (LIBINPUT_CONFIG_SCROLL_NO_SCROLL, d, [])
            else (scroll_get_method d, d,
                  [(X_ERROR, ''Unknown scroll method '' @ [CHR 0x27] @ ''%s''
                       @ [CHR 0x27] @ ''. Using default.'')]))"

definition xf86libinput_parse_scrollbutton_option ::
  "user_options \<Rightarrow> libinput_device \<Rightarrow> u32 \<times> libinput_device \<times> logmsg list" where
  "xf86libinput_parse_scrollbutton_option uo d =
     (if scroll_get_methods d AND LIBINPUT_CONFIG_SCROLL_ON_BUTTON_DOWN = 0 then (0, d, [])
      else
        let b = btn_linux2xorg (scroll_get_button d);
            sb = (word_of_int (xf86SetIntOption (opt_ScrollButton uo) (sint b)) :: u32)
        in case config_set d (scroll_set_button (btn_xorg2linux sb)) of
             (st, d') \<Rightarrow>
               if st \<noteq> LIBINPUT_CONFIG_STATUS_SUCCESS
               then (btn_linux2xorg (scroll_get_button d'), d',
                     [(X_ERROR, ''Failed to set ScrollButton to %u'')])
               else (sb, d', []))"

definition xf86libinput_parse_clickmethod_option ::
  "user_options \<Rightarrow> libinput_device \<Rightarrow> u32 \<times> libinput_device \<times> logmsg list" where
  "xf86libinput_parse_clickmethod_option uo d =
     (if click_get_methods d = LIBINPUT_CONFIG_CLICK_METHOD_NONE
      then (LIBINPUT_CONFIG_CLICK_METHOD_NONE, d, [])
      else
        case opt_ClickMethod uo of
          None \<Rightarrow> (click_get_method d, d, [])
        | Some method \<Rightarrow>
            if strncasecmp_eq method ''buttonareas'' 11
            then (LIBINPUT_CONFIG_CLICK_METHOD_BUTTON_AREAS, d, [])
            else if strncasecmp_eq method ''clickfinger'' 11
            then (LIBINPUT_CONFIG_CLICK_METHOD_CLICKFINGER, d, [])
            else if strncasecmp_eq method ''none'' 4
            then (LIBINPUT_CONFIG_CLICK_METHOD_NONE, d, [])
            else (click_get_method d, d,
                  [(X_ERROR, ''Unknown click method '' @ [CHR 0x27] @ ''%s''
                       @ [CHR 0x27] @ ''. Using default.'')]))"

definition xf86libinput_parse_middleemulation_option ::
  "user_options \<Rightarrow> libinput_device \<Rightarrow> BOOL \<times> libinput_device \<times> logmsg list" where
  "xf86libinput_parse_middleemulation_option uo d =
     (if middle_emulation_is_available d = 0 then (FALSE, d, [])
      else
        let enabled = (word_of_int (xf86SetBoolOption (opt_MiddleEmulation uo)
                                      (middle_emulation_get_default_enabled d)) :: BOOL)
        in case config_set d (middle_emulation_set_enabled (uint enabled)) of
             (st, d') \<Rightarrow>
               if st \<noteq> LIBINPUT_CONFIG_STATUS_SUCCESS
               then (word_of_int (middle_emulation_get_enabled d'), d',
                     [(X_ERROR, ''Failed to set MiddleEmulation to %d'')])
               else (enabled, d', []))"

definition xf86libinput_parse_halfkey_option ::
  "user_options \<Rightarrow> libinput_device \<Rightarrow> BOOL \<times> libinput_device \<times> logmsg list" where
  "xf86libinput_parse_halfkey_option uo d =
     (if halfkey_is_available d = 0 then (FALSE, d, [])
      else
        let enabled = (word_of_int (xf86SetBoolOption (opt_Halfkey uo)
                                      (halfkey_get_default_enabled d)) :: BOOL)
        in case config_set d (halfkey_set_enabled (uint enabled)) of
             (st, d') \<Rightarrow>
               if st \<noteq> LIBINPUT_CONFIG_STATUS_SUCCESS
               then (word_of_int (halfkey_get_enabled d'), d',
                     [(X_ERROR, ''Failed to set Halfkey Accessiblity to %d'')])
               else (enabled, d', []))"

text \<open>
  \<open>xf86libinput_parse_options\<close> resolves the options in the order of the source, each
  resolver seeing the device as the one before left it. The button map is the one
  option that is not resolved against the device; \<open>parsed_btnmap\<close> stands for what
  \<open>xf86libinput_parse_buttonmap_option\<close> produces.
\<close>

definition xf86libinput_parse_options ::
  "(string \<Rightarrow> real list) \<Rightarrow> 8 word list \<Rightarrow> user_options \<Rightarrow> libinput_device
     \<Rightarrow> options \<times> libinput_device \<times> logmsg list" where
  "xf86libinput_parse_options sscanf parsed_btnmap uo d0 =
     (case xf86libinput_parse_tap_option uo d0 of (o_tapping, d1, l1) \<Rightarrow>
      case xf86libinput_parse_tap_drag_lock_option uo d1 of (o_tap_drag_lock, d2, l2) \<Rightarrow>
      case xf86libinput_parse_accel_option uo d2 of (o_speed, d3, l3) \<Rightarrow>
      case xf86libinput_parse_natscroll_option uo d3 of (o_natural_scrolling, d4, l4) \<Rightarrow>
      case xf86libinput_parse_sendevents_option uo d4 of (o_sendevents, d5, l5) \<Rightarrow>
      case xf86libinput_parse_lefthanded_option uo d5 of (o_left_handed, d6, l6) \<Rightarrow>
      case xf86libinput_parse_scroll_option uo d6 of (o_scroll_method, d7, l7) \<Rightarrow>
      case xf86libinput_parse_scrollbutton_option uo d7 of (o_scroll_button, d8, l8) \<Rightarrow>
      case xf86libinput_parse_clickmethod_option uo d8 of (o_click_method, d9, l9) \<Rightarrow>
      case xf86libinput_parse_middleemulation_option uo d9 of (o_middle_emulation, d10, l10) \<Rightarrow>
      case xf86libinput_parse_halfkey_option uo d10 of (o_halfkey, d11, l11) \<Rightarrow>
      case xf86libinput_parse_calibration_option sscanf uo d11 of (o_matrix, d12, l12) \<Rightarrow>
        (\<lparr>tapping = o_tapping, tap_drag_lock = o_tap_drag_lock,
          natural_scrolling = o_natural_scrolling, left_handed = o_left_handed,
          middle_emulation = o_middle_emulation, halfkey = o_halfkey,
          sendevents = o_sendevents, scroll_button = o_scroll_button, speed = o_speed,
          matrix = o_matrix, scroll_method = o_scroll_method,
          click_method = o_click_method, btnmap = parsed_btnmap\<rparr>,
         d12,
         l1 @ l2 @ l3 @ l4 @ l5 @ l6 @ l7 @ l8 @ l9 @ l10 @ l11 @ l12))"

section \<open>Applying the configuration\<close>

text \<open>
  One step of \<open>LibinputApplyConfig\<close>: where the guard holds the request is sent, and a
  message is logged when the device does not answer with success.
\<close>

definition apply_step ::
  "bool \<Rightarrow> config_request \<Rightarrow> logmsg \<Rightarrow> libinput_device \<times> logmsg list
     \<Rightarrow> libinput_device \<times> logmsg list" where
  "apply_step guard rq msg s =
     (case s of (d, lg) \<Rightarrow>
        if guard
        then (case config_set d rq of
                (st, d') \<Rightarrow>
                  (d', if st \<noteq> LIBINPUT_CONFIG_STATUS_SUCCESS then lg @ [msg] else lg))
        else (d, lg))"

definition LibinputApplyConfig ::
  "options \<Rightarrow> libinput_device \<Rightarrow> libinput_device \<times> logmsg list" where
  "LibinputApplyConfig opts d0 =
     (let s1 = apply_step (send_events_get_modes d0 \<noteq> LIBINPUT_CONFIG_SEND_EVENTS_ENABLED)
                 (send_events_set_mode (sendevents opts))
                 (X_ERROR, ''Failed to set SendEventsMode %u'') (d0, []);
          s2 = apply_step (scroll_has_natural_scroll (fst s1) \<noteq> 0)
                 (scroll_set_natural_scroll_enabled (uint (natural_scrolling opts)))
                 (X_ERROR, ''Failed to set NaturalScrolling to %d'') s1;
          s3 = apply_step (accel_is_available (fst s2) \<noteq> 0)
                 (accel_set_speed (speed opts))
                 (X_ERROR, ''Failed to set speed %.2f'') s2;
          s4 = apply_step (tap_get_finger_count (fst s3) > 0)
                 (tap_set_enabled (uint (tapping opts)))
                 (X_ERROR, ''Failed to set Tapping to %d'') s3;
          s5 = apply_step (tap_get_finger_count (fst s4) > 0)
                 (tap_set_drag_lock_enabled (uint (tap_drag_lock opts)))
                 (X_ERROR, ''Failed to set Tapping DragLock to %d'') s4;
          s6 = apply_step (calibration_has_matrix (fst s5) \<noteq> 0)
                 (calibration_set_matrix (matrix opts))
                 (X_ERROR, ''Failed to apply matrix: %.2f %.2f %.2f %2.f %.2f %.2f %.2f %.2f %.2f'')
                 s5;
          s7 = apply_step (left_handed_is_available (fst s6) \<noteq> 0)
                 (left_handed_set (uint (left_handed opts)))
                 (X_ERROR, ''Failed to set LeftHanded to %d'') s6;
          s8 = apply_step True
                 (scroll_set_method (scroll_method opts))
                 (X_ERROR, ''Failed to set scroll to %s'') s7;
          s9 = apply_step
                 (scroll_get_methods (fst s8) AND LIBINPUT_CONFIG_SCROLL_ON_BUTTON_DOWN \<noteq> 0)
                 (scroll_set_button (btn_xorg2linux (scroll_button opts)))
                 (X_ERROR, ''Failed to set ScrollButton to %u'') s8;
          s10 = apply_step True
                 (click_set_method (click_method opts))
                 (X_ERROR, ''Failed to set click method to %s'') s9;
          s11 = apply_step (middle_emulation_is_available (fst s10) \<noteq> 0)
                 (middle_emulation_set_enabled (uint (middle_emulation opts)))
                 (X_ERROR, ''Failed to set MiddleEmulation to %d'') s10;
          s12 = apply_step (halfkey_is_available (fst s11) \<noteq> 0)
                 (halfkey_set_enabled (uint (halfkey opts)))
                 (X_ERROR, ''Failed to set Halfkey Accessiblity support to %d'') s11
      in s12)"

section \<open>The property handler\<close>

text \<open>
  The atoms of the driver's properties are statics that \<open>LibinputInitProperty\<close> sets;
  the handler compares against whatever they hold. A property value as the server
  hands it to the handler is \<open>size\<close> items of \<open>format\<close> bits; a 32-bit item is kept with
  both of its readings, as a \<open>CARD32\<close> and as a \<open>float\<close>.
\<close>

record atoms =
  prop_tap :: Atom
  prop_tap_default :: Atom
  prop_tap_drag_lock :: Atom
  prop_tap_drag_lock_default :: Atom
  prop_calibration :: Atom
  prop_calibration_default :: Atom
  prop_accel :: Atom
  prop_accel_default :: Atom
  prop_natural_scroll :: Atom
  prop_natural_scroll_default :: Atom
  prop_sendevents_available :: Atom
  prop_sendevents_enabled :: Atom
  prop_sendevents_default :: Atom
  prop_left_handed :: Atom
  prop_left_handed_default :: Atom
  prop_scroll_methods_available :: Atom
  prop_scroll_method_enabled :: Atom
  prop_scroll_method_default :: Atom
  prop_scroll_button :: Atom
  prop_scroll_button_default :: Atom
  prop_click_methods_available :: Atom
  prop_click_method_enabled :: Atom
  prop_click_method_default :: Atom
  prop_middle_emulation :: Atom
  prop_middle_emulation_default :: Atom
  prop_halfkey :: Atom
  prop_halfkey_default :: Atom
  prop_float :: Atom
  prop_device :: Atom
  prop_product_id :: Atom

datatype cell32 = Cell32 (as_CARD32: u32) (as_float: real)

datatype propdata =
    Data8 "8 word list"
  | Data16 "16 word list"
  | Data32 "cell32 list"

record XIPropertyValue =
  val_type :: Atom
  val_data :: propdata

definition val_format :: "XIPropertyValue \<Rightarrow> int" where
  "val_format v = (case val_data v of Data8 _ \<Rightarrow> 8 | Data16 _ \<Rightarrow> 16 | Data32 _ \<Rightarrow> 32)"

definition val_size :: "XIPropertyValue \<Rightarrow> int" where
  "val_size v =
     (case val_data v of
        Data8 xs \<Rightarrow> int (length xs)
      | Data16 xs \<Rightarrow> int (length xs)
      | Data32 xs \<Rightarrow> int (length xs))"

text \<open>
  Reading item \<open>i\<close> of the data through a \<open>BOOL*\<close>, \<open>CARD32*\<close> or \<open>float*\<close>. Every read of
  the handler follows a check of the format and the size, so it is of an item the value
  has; the result \<open>0\<close> for any other read is never used.
\<close>

definition data_BOOL :: "XIPropertyValue \<Rightarrow> nat \<Rightarrow> BOOL" where
  "data_BOOL v i =
     (case val_data v of Data8 xs \<Rightarrow> (if i < length xs then xs ! i else 0) | _ \<Rightarrow> 0)"

definition data_CARD32 :: "XIPropertyValue \<Rightarrow> nat \<Rightarrow> u32" where
  "data_CARD32 v i =
     (case val_data v of
        Data32 xs \<Rightarrow> (if i < length xs then as_CARD32 (xs ! i) else 0) | _ \<Rightarrow> 0)"

definition data_float :: "XIPropertyValue \<Rightarrow> nat \<Rightarrow> real" where
  "data_float v i =
     (case val_data v of
        Data32 xs \<Rightarrow> (if i < length xs then as_float (xs ! i) else 0) | _ \<Rightarrow> 0)"

definition set_options :: "InputInfo \<Rightarrow> options \<Rightarrow> InputInfo" where
  "set_options pInfo opts = pInfo\<lparr>driver_data := (driver_data pInfo)\<lparr>options := opts\<rparr>\<rparr>"

text \<open>
  \<open>xf86libinput_check_device\<close>: the device when the driver holds one, otherwise the
  messages logged before it returns \<open>FALSE\<close>.
\<close>

definition xf86libinput_check_device :: "InputInfo \<Rightarrow> logmsg list + libinput_device" where
  "xf86libinput_check_device pInfo =
     (case device (driver_data pInfo) of
        None \<Rightarrow>
          Inl ((if dev_on pInfo then [(X_BUG, ''BUG_WARN(dev->public.on)'')] else [])
               @ [(X_INFO, ''SetProperty on %u called but device is disabled.'')])
      | Some d \<Rightarrow> Inr d)"

text \<open>
  Each setter returns the request's result, the \<open>pInfo\<close> it leaves and the messages it
  logged.
\<close>

definition LibinputSetPropertyTap ::
  "InputInfo \<Rightarrow> XIPropertyValue \<Rightarrow> bool \<Rightarrow> int \<times> InputInfo \<times> logmsg list" where
  "LibinputSetPropertyTap pInfo val checkonly =
     (if val_format val \<noteq> 8 \<or> val_size val \<noteq> 1 \<or> val_type val \<noteq> XA_INTEGER
      then (BadMatch, pInfo, [])
      else
        let data = data_BOOL val 0
        in if checkonly
           then
             if data \<noteq> 0 \<and> data \<noteq> 1 then (BadValue, pInfo, [])
             else
               (case xf86libinput_check_device pInfo of
                  Inl lg \<Rightarrow> (BadMatch, pInfo, lg)
                | Inr d \<Rightarrow>
                    if tap_get_finger_count d = 0 then (BadMatch, pInfo, [])
                    else (Success, pInfo, []))
           else
             (Success,
              set_options pInfo ((options (driver_data pInfo))\<lparr>tapping := data\<rparr>), []))"

definition LibinputSetPropertyTapDragLock ::
  "InputInfo \<Rightarrow> XIPropertyValue \<Rightarrow> bool \<Rightarrow> int \<times> InputInfo \<times> logmsg list" where
  "LibinputSetPropertyTapDragLock pInfo val checkonly =
     (if val_format val \<noteq> 8 \<or> val_size val \<noteq> 1 \<or> val_type val \<noteq> XA_INTEGER
      then (BadMatch, pInfo, [])
      else
        let data = data_BOOL val 0
        in if checkonly
           then
             if data \<noteq> 0 \<and> data \<noteq> 1 then (BadValue, pInfo, [])
             else
               (case xf86libinput_check_device pInfo of
                  Inl lg \<Rightarrow> (BadMatch, pInfo, lg)
                | Inr d \<Rightarrow>
                    if tap_get_finger_count d = 0 then (BadMatch, pInfo, [])
                    else (Success, pInfo, []))
           else
             (Success,
              set_options pInfo ((options (driver_data pInfo))\<lparr>tap_drag_lock := data\<rparr>), []))"

definition LibinputSetPropertyCalibration ::
  "atoms \<Rightarrow> InputInfo \<Rightarrow> XIPropertyValue \<Rightarrow> bool \<Rightarrow> int \<times> InputInfo \<times> logmsg list" where
  "LibinputSetPropertyCalibration A pInfo val checkonly =
     (if val_format val \<noteq> 32 \<or> val_size val \<noteq> 9 \<or> val_type val \<noteq> prop_float A
      then (BadMatch, pInfo, [])
      else
        if checkonly
        then
          if data_float val 6 \<noteq> 0 \<or> data_float val 7 \<noteq> 0 \<or> data_float val 8 \<noteq> 1
          then (BadValue, pInfo, [])
          else
            (case xf86libinput_check_device pInfo of
               Inl lg \<Rightarrow> (BadMatch, pInfo, lg)
             | Inr d \<Rightarrow>
                 if calibration_has_matrix d = 0 then (BadMatch, pInfo, [])
                 else (Success, pInfo, []))
        else
          (Success,
           set_options pInfo
             ((options (driver_data pInfo))\<lparr>matrix := map (data_float val) [0 ..< 9]\<rparr>), []))"

definition LibinputSetPropertyAccel ::
  "atoms \<Rightarrow> InputInfo \<Rightarrow> XIPropertyValue \<Rightarrow> bool \<Rightarrow> int \<times> InputInfo \<times> logmsg list" where
  "LibinputSetPropertyAccel A pInfo val checkonly =
     (if val_format val \<noteq> 32 \<or> val_size val \<noteq> 1 \<or> val_type val \<noteq> prop_float A
      then (BadMatch, pInfo, [])
      else
        let data = data_float val 0
        in if checkonly
           then
             if data < - 1 \<or> data > 1 then (BadValue, pInfo, [])
             else
               (case xf86libinput_check_device pInfo of
                  Inl lg \<Rightarrow> (BadMatch, pInfo, lg)
                | Inr d \<Rightarrow>
                    if accel_is_available d = 0 then (BadMatch, pInfo, [])
                    else (Success, pInfo, []))
           else
             (Success,
              set_options pInfo ((options (driver_data pInfo))\<lparr>speed := data\<rparr>), []))"

definition LibinputSetPropertyNaturalScroll ::
  "InputInfo \<Rightarrow> XIPropertyValue \<Rightarrow> bool \<Rightarrow> int \<times> InputInfo \<times> logmsg list" where
  "LibinputSetPropertyNaturalScroll pInfo val checkonly =
     (if val_format val \<noteq> 8 \<or> val_size val \<noteq> 1 \<or> val_type val \<noteq> XA_INTEGER
      then (BadMatch, pInfo, [])
      else
        let data = data_BOOL val 0
        in if checkonly
           then
             if data \<noteq> 0 \<and> data \<noteq> 1 then (BadValue, pInfo, [])
             else
               (case xf86libinput_check_device pInfo of
                  Inl lg \<Rightarrow> (BadMatch, pInfo, lg)
                | Inr d \<Rightarrow>
                    if scroll_has_natural_scroll d = 0 then (BadMatch, pInfo, [])
                    else (Success, pInfo, []))
           else
             (Success,
              set_options pInfo ((options (driver_data pInfo))\<lparr>natural_scrolling := data\<rparr>), []))"

definition LibinputSetPropertySendEvents ::
  "InputInfo \<Rightarrow> XIPropertyValue \<Rightarrow> bool \<Rightarrow> int \<times> InputInfo \<times> logmsg list" where
  "LibinputSetPropertySendEvents pInfo val checkonly =
     (if val_format val \<noteq> 8 \<or> val_size val \<noteq> 2 \<or> val_type val \<noteq> XA_INTEGER
      then (BadMatch, pInfo, [])
      else
        let modes0 = (0 :: u32);
            modes1 = (if data_BOOL val 0 \<noteq> 0
                      then modes0 OR LIBINPUT_CONFIG_SEND_EVENTS_DISABLED else modes0);
            modes = (if data_BOOL val 1 \<noteq> 0
                     then modes1 OR LIBINPUT_CONFIG_SEND_EVENTS_DISABLED_ON_EXTERNAL_MOUSE
                     else modes1)
        in if checkonly
           then
             (case xf86libinput_check_device pInfo of
                Inl lg \<Rightarrow> (BadMatch, pInfo, lg)
              | Inr d \<Rightarrow>
                  let supported = send_events_get_modes d
                  in if modes OR supported \<noteq> supported then (BadValue, pInfo, [])
                     else (Success, pInfo, []))
           else
             (Success,
              set_options pInfo ((options (driver_data pInfo))\<lparr>sendevents := modes\<rparr>), []))"

definition LibinputSetPropertyLeftHanded ::
  "InputInfo \<Rightarrow> XIPropertyValue \<Rightarrow> bool \<Rightarrow> int \<times> InputInfo \<times> logmsg list" where
  "LibinputSetPropertyLeftHanded pInfo val checkonly =
     (if val_format val \<noteq> 8 \<or> val_size val \<noteq> 1 \<or> val_type val \<noteq> XA_INTEGER
      then (BadMatch, pInfo, [])
      else
        let data = data_BOOL val 0
        in if checkonly
           then
             (case xf86libinput_check_device pInfo of
                Inl lg \<Rightarrow> (BadMatch, pInfo, lg)
              | Inr d \<Rightarrow>
                  let supported = left_handed_is_available d;
                      lh = uint data
                  in if supported = 0 \<and> lh \<noteq> 0 then (BadValue, pInfo, [])
                     else (Success, pInfo, []))
           else
             (Success,
              set_options pInfo ((options (driver_data pInfo))\<lparr>left_handed := data\<rparr>), []))"

text \<open>\<open>__builtin_popcount\<close>: the number of bits set.\<close>

definition popcount :: "u32 \<Rightarrow> nat" where
  "popcount w = length (filter (\<lambda>i. bit w i) [0 ..< 32])"

definition LibinputSetPropertyScrollMethods ::
  "InputInfo \<Rightarrow> XIPropertyValue \<Rightarrow> bool \<Rightarrow> int \<times> InputInfo \<times> logmsg list" where
  "LibinputSetPropertyScrollMethods pInfo val checkonly =
     (if val_format val \<noteq> 8 \<or> val_size val \<noteq> 3 \<or> val_type val \<noteq> XA_INTEGER
      then (BadMatch, pInfo, [])
      else
        let modes0 = (0 :: u32);
            modes1 = (if data_BOOL val 0 \<noteq> 0
                      then modes0 OR LIBINPUT_CONFIG_SCROLL_2FG else modes0);
            modes2 = (if data_BOOL val 1 \<noteq> 0
                      then modes1 OR LIBINPUT_CONFIG_SCROLL_EDGE else modes1);
            modes = (if data_BOOL val 2 \<noteq> 0
                     then modes2 OR LIBINPUT_CONFIG_SCROLL_ON_BUTTON_DOWN else modes2)
        in if checkonly
           then
             if popcount modes > 1 then (BadValue, pInfo, [])
             else
               (case xf86libinput_check_device pInfo of
                  Inl lg \<Rightarrow> (BadMatch, pInfo, lg)
                | Inr d \<Rightarrow>
                    let supported = scroll_get_methods d
                    in if modes \<noteq> 0 \<and> modes AND supported = 0 then (BadValue, pInfo, [])
                       else (Success, pInfo, []))
           else
             (Success,
              set_options pInfo ((options (driver_data pInfo))\<lparr>scroll_method := modes\<rparr>), []))"

definition LibinputSetPropertyScrollButton ::
  "InputInfo \<Rightarrow> XIPropertyValue \<Rightarrow> bool \<Rightarrow> int \<times> InputInfo \<times> logmsg list" where
  "LibinputSetPropertyScrollButton pInfo val checkonly =
     (if val_format val \<noteq> 32 \<or> val_size val \<noteq> 1 \<or> val_type val \<noteq> XA_CARDINAL
      then (BadMatch, pInfo, [])
      else
        let data = data_CARD32 val 0
        in if checkonly
           then
             (case xf86libinput_check_device pInfo of
                Inl lg \<Rightarrow> (BadMatch, pInfo, lg)
              | Inr d \<Rightarrow>
                  let button = data;
                      supported = pointer_has_button d (btn_xorg2linux button)
                  in if button \<noteq> 0 \<and> supported = 0 then (BadValue, pInfo, [])
                     else (Success, pInfo, []))
           else
             (Success,
              set_options pInfo ((options (driver_data pInfo))\<lparr>scroll_button := data\<rparr>), []))"

definition LibinputSetPropertyClickMethod ::
  "InputInfo \<Rightarrow> XIPropertyValue \<Rightarrow> bool \<Rightarrow> int \<times> InputInfo \<times> logmsg list" where
  "LibinputSetPropertyClickMethod pInfo val checkonly =
     (if val_format val \<noteq> 8 \<or> val_size val \<noteq> 2 \<or> val_type val \<noteq> XA_INTEGER
      then (BadMatch, pInfo, [])
      else
        let modes0 = (0 :: u32);
            modes1 = (if data_BOOL val 0 \<noteq> 0
                      then modes0 OR LIBINPUT_CONFIG_CLICK_METHOD_BUTTON_AREAS else modes0);
            modes = (if data_BOOL val 1 \<noteq> 0
                     then modes1 OR LIBINPUT_CONFIG_CLICK_METHOD_CLICKFINGER else modes1)
        in if checkonly
           then
             if popcount modes > 1 then (BadValue, pInfo, [])
             else
               (case xf86libinput_check_device pInfo of
                  Inl lg \<Rightarrow> (BadMatch, pInfo, lg)
                | Inr d \<Rightarrow>
                    let supported = click_get_methods d
                    in if modes \<noteq> 0 \<and> modes AND supported = 0 then (BadValue, pInfo, [])
                       else (Success, pInfo, []))
           else
             (Success,
              set_options pInfo ((options (driver_data pInfo))\<lparr>click_method := modes\<rparr>), []))"

definition LibinputSetPropertyMiddleEmulation ::
  "InputInfo \<Rightarrow> XIPropertyValue \<Rightarrow> bool \<Rightarrow> int \<times> InputInfo \<times> logmsg list" where
  "LibinputSetPropertyMiddleEmulation pInfo val checkonly =
     (if val_format val \<noteq> 8 \<or> val_size val \<noteq> 1 \<or> val_type val \<noteq> XA_INTEGER
      then (BadMatch, pInfo, [])
      else
        let data = data_BOOL val 0
        in if checkonly
           then
             if data \<noteq> 0 \<and> data \<noteq> 1 then (BadValue, pInfo, [])
             else
               (case xf86libinput_check_device pInfo of
                  Inl lg \<Rightarrow> (BadMatch, pInfo, lg)
                | Inr d \<Rightarrow>
                    if middle_emulation_is_available d = 0 then (BadMatch, pInfo, [])
                    else (Success, pInfo, []))
           else
             (Success,
              set_options pInfo ((options (driver_data pInfo))\<lparr>middle_emulation := data\<rparr>), []))"

definition LibinputSetPropertyHalfkey ::
  "InputInfo \<Rightarrow> XIPropertyValue \<Rightarrow> bool \<Rightarrow> int \<times> InputInfo \<times> logmsg list" where
  "LibinputSetPropertyHalfkey pInfo val checkonly =
     (if val_format val \<noteq> 8 \<or> val_size val \<noteq> 1 \<or> val_type val \<noteq> XA_INTEGER
      then (BadMatch, pInfo, [])
      else
        let data = data_BOOL val 0
        in if checkonly
           then
             if data \<noteq> 0 \<and> data \<noteq> 1 then (BadValue, pInfo, [])
             else
               (case xf86libinput_check_device pInfo of
                  Inl lg \<Rightarrow> (BadMatch, pInfo, lg)
                | Inr d \<Rightarrow>
                    if halfkey_is_available d = 0 then (BadMatch, pInfo, [])
                    else (Success, pInfo, []))
           else
             (Success,
              set_options pInfo ((options (driver_data pInfo))\<lparr>halfkey := data\<rparr>), []))"

text \<open>
  The tail of \<open>LibinputSetProperty\<close>: after a setter succeeded outside check mode the
  configuration is applied to the device. \<open>LibinputApplyConfig\<close> passes the driver's
  device pointer to the library without looking at it; with no device the model stops
  with a fault.
\<close>

definition apply_after_set ::
  "bool \<Rightarrow> int \<times> InputInfo \<times> logmsg list \<Rightarrow> fault + (int \<times> InputInfo \<times> logmsg list)" where
  "apply_after_set checkonly r =
     (case r of (rc, pInfo, lg) \<Rightarrow>
        if \<not> checkonly \<and> rc = Success
        then (case device (driver_data pInfo) of
                None \<Rightarrow> Inl null_device_dereference
              | Some d \<Rightarrow>
                  (case LibinputApplyConfig (options (driver_data pInfo)) d of
                     (d', lg') \<Rightarrow>
                       Inr (rc,
                            pInfo\<lparr>driver_data := (driver_data pInfo)\<lparr>device := Some d'\<rparr>\<rparr>,
                            lg @ lg')))
        else Inr (rc, pInfo, lg))"

definition LibinputSetProperty ::
  "atoms \<Rightarrow> InputInfo \<Rightarrow> Atom \<Rightarrow> XIPropertyValue \<Rightarrow> bool
     \<Rightarrow> fault + (int \<times> InputInfo \<times> logmsg list)" where
  "LibinputSetProperty A pInfo atom val checkonly =
     (if atom = prop_tap A
      then apply_after_set checkonly (LibinputSetPropertyTap pInfo val checkonly)
      else if atom = prop_tap_drag_lock A
      then apply_after_set checkonly (LibinputSetPropertyTapDragLock pInfo val checkonly)
      else if atom = prop_calibration A
      then apply_after_set checkonly (LibinputSetPropertyCalibration A pInfo val checkonly)
      else if atom = prop_accel A
      then apply_after_set checkonly (LibinputSetPropertyAccel A pInfo val checkonly)
      else if atom = prop_natural_scroll A
      then apply_after_set checkonly (LibinputSetPropertyNaturalScroll pInfo val checkonly)
      else if atom = prop_sendevents_available A
      then Inr (BadAccess, pInfo, [])
      else if atom = prop_sendevents_enabled A
      then apply_after_set checkonly (LibinputSetPropertySendEvents pInfo val checkonly)
      else if atom = prop_left_handed A
      then apply_after_set checkonly (LibinputSetPropertyLeftHanded pInfo val checkonly)
      else if atom = prop_scroll_methods_available A
      then Inr (BadAccess, pInfo, [])
      else if atom = prop_scroll_method_enabled A
      then apply_after_set checkonly (LibinputSetPropertyScrollMethods pInfo val checkonly)
      else if atom = prop_scroll_button A
      then apply_after_set checkonly (LibinputSetPropertyScrollButton pInfo val checkonly)
      else if atom = prop_click_methods_available A
      then Inr (BadAccess, pInfo, [])
      else if atom = prop_click_method_enabled A
      then apply_after_set checkonly (LibinputSetPropertyClickMethod pInfo val checkonly)
      else if atom = prop_middle_emulation A
      then apply_after_set checkonly (LibinputSetPropertyMiddleEmulation pInfo val checkonly)
      else if atom = prop_halfkey A
      then apply_after_set checkonly (LibinputSetPropertyHalfkey pInfo val checkonly)
      else if atom = prop_device A \<or> atom = prop_product_id A
              \<or> atom = prop_tap_default A
              \<or> atom = prop_tap_drag_lock_default A
              \<or> atom = prop_calibration_default A
              \<or> atom = prop_accel_default A
              \<or> atom = prop_natural_scroll_default A
              \<or> atom = prop_sendevents_default A
              \<or> atom = prop_left_handed_default A
              \<or> atom = prop_scroll_method_default A
              \<or> atom = prop_scroll_button_default A
              \<or> atom = prop_click_method_default A
              \<or> atom = prop_middle_emulation_default A
              \<or> atom = prop_halfkey_default A
      then Inr (BadAccess, pInfo, [])
      else Inr (Success, pInfo, []))"

text \<open>
  A sequence of property requests handed to the handler one after the other, each on
  the \<open>pInfo\<close> the one before left: the results in order and the final \<open>pInfo\<close>.
\<close>

fun set_properties ::
  "atoms \<Rightarrow> InputInfo \<Rightarrow> (Atom \<times> XIPropertyValue \<times> bool) list
     \<Rightarrow> fault + (int list \<times> InputInfo)" where
  "set_properties A pInfo [] = Inr ([], pInfo)"
| "set_properties A pInfo ((atom, val, checkonly) # rest) =
     (case LibinputSetProperty A pInfo atom val checkonly of
        Inl f \<Rightarrow> Inl f
      | Inr (rc, pInfo', _) \<Rightarrow>
          (case set_properties A pInfo' rest of
             Inl f \<Rightarrow> Inl f
           | Inr (rcs, pInfo'') \<Rightarrow> Inr (rc # rcs, pInfo'')))"

section \<open>The scroll deltas as the specification states them\<close>






section \<open>Well-formed property values\<close>




section \<open>Capabilities\<close>

text \<open>
  The capability queries of a device, which no configuration request changes, and the
  identity matrix the calibration resolver starts from.
\<close>

definition capability_set ::
  "libinput_device \<Rightarrow> int \<times> int \<times> int \<times> u32 \<times> int \<times> int \<times> u32 \<times> u32 \<times> int \<times> int" where
  "capability_set d =
     (tap_get_finger_count d, accel_is_available d, scroll_has_natural_scroll d,
      send_events_get_modes d, calibration_has_matrix d, left_handed_is_available d,
      scroll_get_methods d, click_get_methods d, middle_emulation_is_available d,
      halfkey_is_available d)"

definition identity_matrix :: "real list" where
  "identity_matrix = [1, 0, 0, 0, 1, 0, 0, 0, 1]"

section \<open>Sample devices, events and configurations\<close>

text \<open>
  The driver data as \<open>xf86libinput_pre_init\<close> leaves it before a device is attached
  (allocated zeroed, scroll distances set), two devices that differ in their identity
  only, and events given by what their accessors return.
\<close>

definition calloc_options :: options where
  "calloc_options =
     \<lparr>tapping = 0, tap_drag_lock = 0, natural_scrolling = 0, left_handed = 0,
      middle_emulation = 0, halfkey = 0, sendevents = 0, scroll_button = 0, speed = 0,
      matrix = replicate 9 0, scroll_method = 0, click_method = 0,
      btnmap = replicate 257 0\<rparr>"

definition calloc_driver_data :: xf86libinput where
  "calloc_driver_data =
     \<lparr>device = None, vdist = 0, hdist = 0, vdist_remainder = 0, hdist_remainder = 0,
      has_abs = 0, valuators = Map.empty, options = calloc_options\<rparr>"

definition sample_pInfo :: "nat \<Rightarrow> InputInfo" where
  "sample_pInfo n =
     \<lparr>dev = n, dev_on = True, driver_data = pre_init_scroll calloc_driver_data\<rparr>"

definition touch_at :: "int \<Rightarrow> real \<Rightarrow> real \<Rightarrow> libinput_event_touch" where
  "touch_at slot x y =
     \<lparr>get_slot = slot, get_x_transformed = (\<lambda>_. x), get_y_transformed = (\<lambda>_. y)\<rparr>"

definition button_event :: "u32 \<Rightarrow> libinput_button_state \<Rightarrow> libinput_event_pointer" where
  "button_event b st =
     \<lparr>get_button = b, get_button_state = st,
      get_axis_source = LIBINPUT_POINTER_AXIS_SOURCE_other 0,
      has_axis = (\<lambda>_. False), get_axis_value = (\<lambda>_. 0),
      get_axis_value_discrete = (\<lambda>_. 0)\<rparr>"


text \<open>
  A device without any configurable capability that refuses every request, a touchpad
  that has every capability and accepts every request, a \<open>pInfo\<close> that holds a device,
  and a table of pairwise distinct property atoms.
\<close>

definition plain_device :: libinput_device where
  "plain_device =
     \<lparr>tap_get_finger_count = 0, tap_get_enabled = 0, tap_get_drag_lock_enabled = 0,
      accel_is_available = 0, accel_get_speed = 0,
      scroll_has_natural_scroll = 0, scroll_get_natural_scroll_enabled = 0,
      send_events_get_modes = 0, send_events_get_mode = 0,
      calibration_has_matrix = 0, calibration_get_matrix6 = [1, 0, 0, 0, 1, 0],
      left_handed_is_available = 0, left_handed_get = 0,
      scroll_get_methods = 0, scroll_get_method = 0, scroll_get_button = 0,
      click_get_methods = 0, click_get_method = 0,
      middle_emulation_is_available = 0, middle_emulation_get_enabled = 0,
      middle_emulation_get_default_enabled = 0,
      halfkey_is_available = 0, halfkey_get_enabled = 0, halfkey_get_default_enabled = 0,
      pointer_has_button = (\<lambda>_. 0),
      respond = (\<lambda>_. LIBINPUT_CONFIG_STATUS_UNSUPPORTED)\<rparr>"

definition touchpad_device :: libinput_device where
  "touchpad_device =
     \<lparr>tap_get_finger_count = 3, tap_get_enabled = 0, tap_get_drag_lock_enabled = 0,
      accel_is_available = 1, accel_get_speed = 0,
      scroll_has_natural_scroll = 1, scroll_get_natural_scroll_enabled = 0,
      send_events_get_modes = 3, send_events_get_mode = 0,
      calibration_has_matrix = 1, calibration_get_matrix6 = [1, 0, 0, 0, 1, 0],
      left_handed_is_available = 1, left_handed_get = 0,
      scroll_get_methods = 7, scroll_get_method = 1, scroll_get_button = 0,
      click_get_methods = 3, click_get_method = 1,
      middle_emulation_is_available = 1, middle_emulation_get_enabled = 0,
      middle_emulation_get_default_enabled = 0,
      halfkey_is_available = 1, halfkey_get_enabled = 0, halfkey_get_default_enabled = 0,
      pointer_has_button = (\<lambda>b. if b = BTN_LEFT \<or> b = BTN_RIGHT \<or> b = BTN_MIDDLE then 1 else 0),
      respond = (\<lambda>_. LIBINPUT_CONFIG_STATUS_SUCCESS)\<rparr>"

definition attached :: "libinput_device \<Rightarrow> nat \<Rightarrow> InputInfo" where
  "attached d n =
     \<lparr>dev = n, dev_on = True,
      driver_data = (pre_init_scroll calloc_driver_data)\<lparr>device := Some d\<rparr>\<rparr>"

definition sample_atoms :: atoms where
  "sample_atoms =
     \<lparr>prop_tap = 300, prop_tap_default = 301, prop_tap_drag_lock = 302,
      prop_tap_drag_lock_default = 303, prop_calibration = 304,
      prop_calibration_default = 305, prop_accel = 306, prop_accel_default = 307,
      prop_natural_scroll = 308, prop_natural_scroll_default = 309,
      prop_sendevents_available = 310, prop_sendevents_enabled = 311,
      prop_sendevents_default = 312, prop_left_handed = 313,
      prop_left_handed_default = 314, prop_scroll_methods_available = 315,
      prop_scroll_method_enabled = 316, prop_scroll_method_default = 317,
      prop_scroll_button = 318, prop_scroll_button_default = 319,
      prop_click_methods_available = 320, prop_click_method_enabled = 321,
      prop_click_method_default = 322, prop_middle_emulation = 323,
      prop_middle_emulation_default = 324, prop_halfkey = 325,
      prop_halfkey_default = 326, prop_float = 327, prop_device = 328,
      prop_product_id = 329\<rparr>"

definition bytes_value :: "8 word list \<Rightarrow> XIPropertyValue" where
  "bytes_value bs = \<lparr>val_type = XA_INTEGER, val_data = Data8 bs\<rparr>"

definition floats_value :: "Atom \<Rightarrow> real list \<Rightarrow> XIPropertyValue" where
  "floats_value float_atom xs = \<lparr>val_type = float_atom, val_data = Data32 (map (Cell32 0) xs)\<rparr>"


text \<open>
  A user configuration that asks for every option to be switched on, the conversions the
  C library makes of the calibration strings used below, and a touchscreen that has a
  calibration matrix and refuses every request.
\<close>

definition everything_on :: user_options where
  "everything_on =
     \<lparr>opt_Tapping = Some True, opt_TappingDragLock = Some True, opt_AccelSpeed = Some 1,
      opt_NaturalScrolling = Some True, opt_SendEventsMode = Some ''disabled'',
      opt_CalibrationMatrix = Some ''0.5 0 0 0 1 0 0 0 1'', opt_LeftHanded = Some True,
      opt_ScrollMethod = Some ''button'', opt_ScrollButton = Some 2,
      opt_ClickMethod = Some ''clickfinger'', opt_MiddleEmulation = Some True,
      opt_Halfkey = Some True\<rparr>"

definition sample_sscanf :: "string \<Rightarrow> real list" where
  "sample_sscanf str =
     (if str = ''0.5 0 0 0 1 0 0 0 1'' then [1 / 2, 0, 0, 0, 1, 0, 0, 0, 1]
      else if str = ''1 0 0 0 1 0 5 5 5'' then [1, 0, 0, 0, 1, 0, 5, 5, 5]
      else if str = ''0.5 0 0'' then [1 / 2, 0, 0]
      else [])"

definition refusing_touchscreen :: libinput_device where
  "refusing_touchscreen = plain_device\<lparr>calibration_has_matrix := 1\<rparr>"

text \<open>
  The statics of the touch handler after \<open>2^32 - 1\<close> touches on slot 0, each put down
  and lifted again: the counter stands at its largest value.
\<close>

definition touch_statics_at_wrap :: touch_statics where
  "touch_statics_at_wrap =
     \<lparr>next_touchid = 0xFFFFFFFF,
      touchids = (replicate TOUCH_MAX_SLOTS 0)[0 := 0xFFFFFFFE]\<rparr>"

section \<open>Verified properties\<close>

section \<open>Facts about the button numbering\<close>

lemmas btn_codes = BTN_LEFT_def BTN_RIGHT_def BTN_MIDDLE_def BTN_SIDE_def

lemma sint_side_offset:
  fixes c :: u32
  assumes b: "uint c < 2 ^ 31 + 267"
  shows "sint (8 + c - BTN_SIDE) = 8 + (uint c - uint BTN_SIDE)"
proof -
  have "8 + c - BTN_SIDE = (word_of_int (uint c - 267) :: u32)"
    by (simp add: BTN_SIDE_def)
  then have "sint (8 + c - BTN_SIDE) = signed_take_bit 31 (uint c - 267)"
    by (simp only: sint_sbintrunc') simp
  also have "\<dots> = uint c - 267"
    using b uint_ge_0[of c] by (simp add: signed_take_bit_int_eq_self)
  finally show ?thesis by (simp add: BTN_SIDE_def)
qed

text \<open>
  C9. A button event is forwarded as one button post that carries the mapped button and
  whether the state is pressed. The mapping sends code 0 to 0, left to 1, middle to 2,
  right to 3 and every other code \<open>c\<close> to \<open>8 + (c - BTN_SIDE)\<close>, computed in 32-bit
  unsigned arithmetic; read as the \<open>int\<close> that is posted, this is the integer
  \<open>8 + (c - BTN_SIDE)\<close> for every code below \<open>2^31 + 267\<close>, also where it is negative.
\<close>

theorem button_event_mapping:
  "xf86libinput_handle_button pInfo event =
     [xf86PostButtonEvent (dev pInfo) Relative
        (sint (btn_linux2xorg (get_button event)))
        (get_button_state event = LIBINPUT_BUTTON_STATE_PRESSED)]
   \<and> btn_linux2xorg 0 = 0
   \<and> btn_linux2xorg BTN_LEFT = 1
   \<and> btn_linux2xorg BTN_MIDDLE = 2
   \<and> btn_linux2xorg BTN_RIGHT = 3
   \<and> (c \<noteq> 0 \<and> c \<noteq> BTN_LEFT \<and> c \<noteq> BTN_MIDDLE \<and> c \<noteq> BTN_RIGHT \<longrightarrow>
        btn_linux2xorg c = 8 + (c - BTN_SIDE)
        \<and> (uint c < 2 ^ 31 + 267 \<longrightarrow>
             sint (btn_linux2xorg c) = 8 + (uint c - uint BTN_SIDE)))"
proof -
  have post: "xf86libinput_handle_button pInfo event =
     [xf86PostButtonEvent (dev pInfo) Relative
        (sint (btn_linux2xorg (get_button event)))
        (get_button_state event = LIBINPUT_BUTTON_STATE_PRESSED)]"
    by (simp add: xf86libinput_handle_button_def)
  have named: "btn_linux2xorg 0 = 0" "btn_linux2xorg BTN_LEFT = 1"
    "btn_linux2xorg BTN_MIDDLE = 2" "btn_linux2xorg BTN_RIGHT = 3"
    by (simp_all add: btn_linux2xorg_def btn_codes)
  have other: "btn_linux2xorg c = 8 + (c - BTN_SIDE)"
    if "c \<noteq> 0 \<and> c \<noteq> BTN_LEFT \<and> c \<noteq> BTN_MIDDLE \<and> c \<noteq> BTN_RIGHT"
    using that by (simp add: btn_linux2xorg_def)
  have "sint (btn_linux2xorg c) = 8 + (uint c - uint BTN_SIDE)"
    if "c \<noteq> 0 \<and> c \<noteq> BTN_LEFT \<and> c \<noteq> BTN_MIDDLE \<and> c \<noteq> BTN_RIGHT"
      and "uint c < 2 ^ 31 + 267"
    using that sint_side_offset[of c] by (simp add: btn_linux2xorg_def)
  with post named other show ?thesis by blast
qed

theorem button_event_mapping_witness:
  "xf86libinput_handle_button (sample_pInfo 7) (button_event 0x114 LIBINPUT_BUTTON_STATE_PRESSED)
     = [xf86PostButtonEvent 7 Relative 9 True]
   \<and> (0x114 :: u32) \<noteq> 0 \<and> 0x114 \<noteq> BTN_LEFT \<and> 0x114 \<noteq> BTN_MIDDLE \<and> 0x114 \<noteq> BTN_RIGHT
   \<and> uint (0x114 :: u32) < 2 ^ 31 + 267
   \<and> btn_linux2xorg 0x114 = 9 \<and> sint (btn_linux2xorg 0x114) = 9"
  using button_event_mapping
    [of "sample_pInfo 7" "button_event 0x114 LIBINPUT_BUTTON_STATE_PRESSED" "0x114"]
  by (simp add: btn_codes sample_pInfo_def button_event_def)

text \<open>
  C10. The two conversions undo each other: \<open>btn_xorg2linux\<close> after \<open>btn_linux2xorg\<close>
  on code 0, left, middle, right and every code from \<open>BTN_SIDE\<close> up, and
  \<open>btn_linux2xorg\<close> after \<open>btn_xorg2linux\<close> on the numbers 0, 1, 2, 3 and every number
  from 8 up except \<open>2^32 - 267\<close>, which \<open>btn_xorg2linux\<close> wraps around to code 0.
\<close>

theorem btn_conversions_inverse:
  "((b = 0 \<or> b = 1 \<or> b = 2 \<or> b = 3 \<or> 8 \<le> b) \<and> b \<noteq> 0xFFFFFEF5 \<longrightarrow>
       btn_linux2xorg (btn_xorg2linux b) = b)
   \<and> (c = 0 \<or> c = BTN_LEFT \<or> c = BTN_MIDDLE \<or> c = BTN_RIGHT \<or> BTN_SIDE \<le> c \<longrightarrow>
       btn_xorg2linux (btn_linux2xorg c) = c)"
proof -
  have shift: "(x + 267 = k) = (x = k - 267)" for x k :: u32
    by auto
  have m: "(- 267 :: u32) = 0xFFFFFEF5"
    by simp
  have small: "btn_linux2xorg (btn_xorg2linux b) = b" if "b = 0 \<or> b = 1 \<or> b = 2 \<or> b = 3"
    using that by (auto simp: btn_linux2xorg_def btn_xorg2linux_def btn_codes)
  have large: "btn_linux2xorg (btn_xorg2linux b) = b" if ge: "8 \<le> b" and ne: "b \<noteq> 0xFFFFFEF5"
  proof -
    have nb: "b \<noteq> 0" "b \<noteq> 1" "b \<noteq> 2" "b \<noteq> 3" "b \<noteq> 5" "b \<noteq> 6" "b \<noteq> 7"
      using ge by (auto simp: word_le_nat_alt)
    have x: "btn_xorg2linux b = b + 267"
      using nb by (simp add: btn_xorg2linux_def btn_codes)
    show ?thesis
      unfolding x using nb ne by (simp add: btn_linux2xorg_def btn_codes shift m)
  qed
  have inv2: "btn_xorg2linux (btn_linux2xorg c) = c"
    if "c = 0 \<or> c = BTN_LEFT \<or> c = BTN_MIDDLE \<or> c = BTN_RIGHT \<or> BTN_SIDE \<le> c"
    using that unfolding btn_linux2xorg_def btn_xorg2linux_def btn_codes by auto
  from small large inv2 show ?thesis by blast
qed

theorem btn_conversions_inverse_witness:
  "(8 :: u32) \<le> 9 \<and> (9 :: u32) \<noteq> 0xFFFFFEF5 \<and> btn_linux2xorg (btn_xorg2linux 9) = 9
   \<and> BTN_SIDE \<le> 0x114 \<and> btn_xorg2linux (btn_linux2xorg 0x114) = 0x114"
  using btn_conversions_inverse [of 9 "0x114"]
  by (simp add: btn_codes)

theorem btn_conversions_inverse_counterexample:
  "(8 :: u32) \<le> 0xFFFFFEF5
   \<and> btn_xorg2linux 0xFFFFFEF5 = 0
   \<and> btn_linux2xorg (btn_xorg2linux 0xFFFFFEF5) = 0
   \<and> btn_linux2xorg (btn_xorg2linux 0xFFFFFEF5) \<noteq> 0xFFFFFEF5"
  by (simp add: btn_linux2xorg_def btn_xorg2linux_def btn_codes)


section \<open>Facts about event translation\<close>

lemma set_valuators_simps [simp]:
  "dev (set_valuators pInfo m) = dev pInfo"
  "dev_on (set_valuators pInfo m) = dev_on pInfo"
  "vdist (driver_data (set_valuators pInfo m)) = vdist (driver_data pInfo)"
  "hdist (driver_data (set_valuators pInfo m)) = hdist (driver_data pInfo)"
  "valuators (driver_data (set_valuators pInfo m)) = m"
  "options (driver_data (set_valuators pInfo m)) = options (driver_data pInfo)"
  "device (driver_data (set_valuators pInfo m)) = device (driver_data pInfo)"
  "set_valuators (set_valuators pInfo m) m' = set_valuators pInfo m'"
  by (simp_all add: set_valuators_def)













lemma handle_touch_down:
  assumes "0 \<le> get_slot ev" "get_slot ev < int TOUCH_MAX_SLOTS"
  shows "xf86libinput_handle_touch pInfo ev LIBINPUT_EVENT_TOUCH_DOWN st =
           Inr (st\<lparr>touchids := (touchids st)[nat (get_slot ev) := next_touchid st],
                   next_touchid := next_touchid st + 1\<rparr>,
                set_valuators pInfo [0 \<mapsto> get_x_transformed ev TOUCH_AXIS_MAX,
                                     1 \<mapsto> get_y_transformed ev TOUCH_AXIS_MAX],
                [xf86PostTouchEvent (dev pInfo)
                   ((touchids st)[nat (get_slot ev) := next_touchid st] ! nat (get_slot ev))
                   XI_TouchBegin
                   [0 \<mapsto> get_x_transformed ev TOUCH_AXIS_MAX,
                    1 \<mapsto> get_y_transformed ev TOUCH_AXIS_MAX]])"
  using assms by (simp add: xf86libinput_handle_touch_def Let_def)

lemma handle_touch_up:
  assumes "0 \<le> get_slot ev" "get_slot ev < int TOUCH_MAX_SLOTS"
  shows "xf86libinput_handle_touch pInfo ev LIBINPUT_EVENT_TOUCH_UP st =
           Inr (st, set_valuators pInfo Map.empty,
                [xf86PostTouchEvent (dev pInfo) (touchids st ! nat (get_slot ev)) XI_TouchEnd
                   Map.empty])"
  using assms by (simp add: xf86libinput_handle_touch_def Let_def)

text \<open>
  C5. Touch-down on slot 2, touch-down on slot 5, touch-up on slot 2, all on one device
  and from any state of the identity counter: the two downs are posted with the
  counter's value \<open>n\<close> and with \<open>n + 1\<close> in 32-bit arithmetic, which always differ and
  are in increasing order unless the counter wraps between them (\<open>n = 2^32 - 1\<close>, where
  they are 4294967295 and 0), and the up is posted with \<open>n\<close>, the identity of slot 2.
\<close>

theorem touch_scenario_slots_2_5:
  assumes len: "length (touchids st) = TOUCH_MAX_SLOTS"
    and s2: "get_slot down2 = 2" and s5: "get_slot down5 = 5" and u2: "get_slot up2 = 2"
  shows "(\<exists>st'. dispatch_touch st
            [(pInfo, LIBINPUT_EVENT_TOUCH_DOWN, down2),
             (pInfo, LIBINPUT_EVENT_TOUCH_DOWN, down5),
             (pInfo, LIBINPUT_EVENT_TOUCH_UP, up2)]
          = Inr (st',
              [xf86PostTouchEvent (dev pInfo) (next_touchid st) XI_TouchBegin
                 [0 \<mapsto> get_x_transformed down2 TOUCH_AXIS_MAX,
                  1 \<mapsto> get_y_transformed down2 TOUCH_AXIS_MAX],
               xf86PostTouchEvent (dev pInfo) (next_touchid st + 1) XI_TouchBegin
                 [0 \<mapsto> get_x_transformed down5 TOUCH_AXIS_MAX,
                  1 \<mapsto> get_y_transformed down5 TOUCH_AXIS_MAX],
               xf86PostTouchEvent (dev pInfo) (next_touchid st) XI_TouchEnd Map.empty]))
     \<and> next_touchid st \<noteq> next_touchid st + 1
     \<and> (next_touchid st \<noteq> - 1 \<longrightarrow> next_touchid st < next_touchid st + 1)"
proof -
  let ?st1 = "st\<lparr>touchids := (touchids st)[2 := next_touchid st],
                 next_touchid := next_touchid st + 1\<rparr>"
  let ?st2 = "?st1\<lparr>touchids := (touchids ?st1)[5 := next_touchid ?st1],
                   next_touchid := next_touchid ?st1 + 1\<rparr>"
  have d2: "xf86libinput_handle_touch pInfo down2 LIBINPUT_EVENT_TOUCH_DOWN st =
      Inr (?st1, set_valuators pInfo [0 \<mapsto> get_x_transformed down2 TOUCH_AXIS_MAX,
                                     1 \<mapsto> get_y_transformed down2 TOUCH_AXIS_MAX],
                [xf86PostTouchEvent (dev pInfo) (next_touchid st) XI_TouchBegin
                   [0 \<mapsto> get_x_transformed down2 TOUCH_AXIS_MAX,
                    1 \<mapsto> get_y_transformed down2 TOUCH_AXIS_MAX]])"
    using handle_touch_down[of down2 pInfo st] len s2 by (simp add: TOUCH_MAX_SLOTS_def)
  have d5: "xf86libinput_handle_touch pInfo down5 LIBINPUT_EVENT_TOUCH_DOWN ?st1 =
      Inr (?st2, set_valuators pInfo [0 \<mapsto> get_x_transformed down5 TOUCH_AXIS_MAX,
                                     1 \<mapsto> get_y_transformed down5 TOUCH_AXIS_MAX],
                [xf86PostTouchEvent (dev pInfo) (next_touchid st + 1) XI_TouchBegin
                   [0 \<mapsto> get_x_transformed down5 TOUCH_AXIS_MAX,
                    1 \<mapsto> get_y_transformed down5 TOUCH_AXIS_MAX]])"
    using handle_touch_down[of down5 pInfo ?st1] len s5 by (simp add: TOUCH_MAX_SLOTS_def)
  have "touchids ?st2 ! 2 = next_touchid st"
    using len by (simp add: TOUCH_MAX_SLOTS_def)
  then have up: "xf86libinput_handle_touch pInfo up2 LIBINPUT_EVENT_TOUCH_UP ?st2 =
      Inr (?st2, set_valuators pInfo Map.empty,
           [xf86PostTouchEvent (dev pInfo) (next_touchid st) XI_TouchEnd Map.empty])"
    using handle_touch_up[of up2 pInfo ?st2] u2 by (simp add: TOUCH_MAX_SLOTS_def)
  have run: "dispatch_touch st
            [(pInfo, LIBINPUT_EVENT_TOUCH_DOWN, down2),
             (pInfo, LIBINPUT_EVENT_TOUCH_DOWN, down5),
             (pInfo, LIBINPUT_EVENT_TOUCH_UP, up2)]
          = Inr (?st2,
              [xf86PostTouchEvent (dev pInfo) (next_touchid st) XI_TouchBegin
                 [0 \<mapsto> get_x_transformed down2 TOUCH_AXIS_MAX,
                  1 \<mapsto> get_y_transformed down2 TOUCH_AXIS_MAX],
               xf86PostTouchEvent (dev pInfo) (next_touchid st + 1) XI_TouchBegin
                 [0 \<mapsto> get_x_transformed down5 TOUCH_AXIS_MAX,
                  1 \<mapsto> get_y_transformed down5 TOUCH_AXIS_MAX],
               xf86PostTouchEvent (dev pInfo) (next_touchid st) XI_TouchEnd Map.empty])"
    by (simp only: dispatch_touch.simps d2 d5 up sum.case prod.case append.simps)
  have ne: "next_touchid st \<noteq> next_touchid st + 1"
    by simp
  have incr: "next_touchid st < next_touchid st + 1" if "next_touchid st \<noteq> - 1"
    using that by (metis inc_less_eq_self_iff_eq not_le)
  from run ne incr show ?thesis by blast
qed

theorem touch_scenario_slots_2_5_witness:
  "length (touchids touch_statics_init) = TOUCH_MAX_SLOTS
   \<and> get_slot (touch_at 2 100 200) = 2 \<and> get_slot (touch_at 5 300 400) = 5
   \<and> get_slot (touch_at 2 0 0) = 2
   \<and> next_touchid touch_statics_init \<noteq> - 1
   \<and> (\<exists>st'. dispatch_touch touch_statics_init
            [(sample_pInfo 1, LIBINPUT_EVENT_TOUCH_DOWN, touch_at 2 100 200),
             (sample_pInfo 1, LIBINPUT_EVENT_TOUCH_DOWN, touch_at 5 300 400),
             (sample_pInfo 1, LIBINPUT_EVENT_TOUCH_UP, touch_at 2 0 0)]
          = Inr (st',
              [xf86PostTouchEvent 1 0 XI_TouchBegin [0 \<mapsto> 100, 1 \<mapsto> 200],
               xf86PostTouchEvent 1 1 XI_TouchBegin [0 \<mapsto> 300, 1 \<mapsto> 400],
               xf86PostTouchEvent 1 0 XI_TouchEnd Map.empty]))
   \<and> (0 :: u32) < 1"
  using touch_scenario_slots_2_5
    [of touch_statics_init "touch_at 2 100 200" "touch_at 5 300 400" "touch_at 2 0 0"
        "sample_pInfo 1"]
  by (simp add: touch_statics_init_def touch_at_def sample_pInfo_def TOUCH_MAX_SLOTS_def)

theorem touch_scenario_slots_2_5_counterexample:
  "dispatch_touch touch_statics_at_wrap
      [(sample_pInfo 1, LIBINPUT_EVENT_TOUCH_DOWN, touch_at 2 100 200),
       (sample_pInfo 1, LIBINPUT_EVENT_TOUCH_DOWN, touch_at 5 300 400),
       (sample_pInfo 1, LIBINPUT_EVENT_TOUCH_UP, touch_at 2 0 0)]
    = Inr (\<lparr>next_touchid = 1,
            touchids = (replicate TOUCH_MAX_SLOTS 0)[0 := 0xFFFFFFFE, 2 := 0xFFFFFFFF, 5 := 0]\<rparr>,
           [xf86PostTouchEvent 1 0xFFFFFFFF XI_TouchBegin [0 \<mapsto> 100, 1 \<mapsto> 200],
            xf86PostTouchEvent 1 0 XI_TouchBegin [0 \<mapsto> 300, 1 \<mapsto> 400],
            xf86PostTouchEvent 1 0xFFFFFFFF XI_TouchEnd Map.empty])
   \<and> \<not> ((0xFFFFFFFF :: u32) < 0)"
proof -
  have wrap: "(4294967296 :: u32) = 0"
    by simp
  show ?thesis
    by (simp add: xf86libinput_handle_touch_def Let_def touch_statics_at_wrap_def touch_at_def
        sample_pInfo_def TOUCH_MAX_SLOTS_def wrap)
qed

text \<open>
  C1, at the input where the code departs from it. Two devices each put a finger down
  on their slot 0, then the first device lifts its finger. The slot table is shared by
  all devices, so the second down overwrites the first device's entry: the first device's
  up is posted with identity 1, the identity of the second device's touch, which is
  still open, and not with identity 0, which the first device's down was posted with.
\<close>

theorem touch_up_takes_other_device_identity:
  "\<exists>st'. dispatch_touch touch_statics_init
      [(sample_pInfo 1, LIBINPUT_EVENT_TOUCH_DOWN, touch_at 0 100 200),
       (sample_pInfo 2, LIBINPUT_EVENT_TOUCH_DOWN, touch_at 0 300 400),
       (sample_pInfo 1, LIBINPUT_EVENT_TOUCH_UP, touch_at 0 0 0)]
    = Inr (st',
        [xf86PostTouchEvent 1 0 XI_TouchBegin [0 \<mapsto> 100, 1 \<mapsto> 200],
         xf86PostTouchEvent 2 1 XI_TouchBegin [0 \<mapsto> 300, 1 \<mapsto> 400],
         xf86PostTouchEvent 1 1 XI_TouchEnd Map.empty])"
  by (simp add: xf86libinput_handle_touch_def Let_def touch_statics_init_def touch_at_def
      sample_pInfo_def TOUCH_MAX_SLOTS_def)

section \<open>Facts about the property handler\<close>

lemma check_Tap: "\<exists>rc lg. LibinputSetPropertyTap pInfo val True = (rc, pInfo, lg)"
  by (simp add: LibinputSetPropertyTap_def Let_def split: sum.split)

lemma check_TapDragLock: "\<exists>rc lg. LibinputSetPropertyTapDragLock pInfo val True = (rc, pInfo, lg)"
  by (simp add: LibinputSetPropertyTapDragLock_def Let_def split: sum.split)

lemma check_Calibration: "\<exists>rc lg. LibinputSetPropertyCalibration A pInfo val True = (rc, pInfo, lg)"
  by (simp add: LibinputSetPropertyCalibration_def Let_def split: sum.split)

lemma check_Accel: "\<exists>rc lg. LibinputSetPropertyAccel A pInfo val True = (rc, pInfo, lg)"
  by (simp add: LibinputSetPropertyAccel_def Let_def split: sum.split)

lemma check_NaturalScroll: "\<exists>rc lg. LibinputSetPropertyNaturalScroll pInfo val True = (rc, pInfo, lg)"
  by (simp add: LibinputSetPropertyNaturalScroll_def Let_def split: sum.split)

lemma check_SendEvents: "\<exists>rc lg. LibinputSetPropertySendEvents pInfo val True = (rc, pInfo, lg)"
  by (simp add: LibinputSetPropertySendEvents_def Let_def split: sum.split)

lemma check_LeftHanded: "\<exists>rc lg. LibinputSetPropertyLeftHanded pInfo val True = (rc, pInfo, lg)"
  by (simp add: LibinputSetPropertyLeftHanded_def Let_def split: sum.split)

lemma check_ScrollMethods: "\<exists>rc lg. LibinputSetPropertyScrollMethods pInfo val True = (rc, pInfo, lg)"
  by (simp add: LibinputSetPropertyScrollMethods_def Let_def split: sum.split)

lemma check_ScrollButton: "\<exists>rc lg. LibinputSetPropertyScrollButton pInfo val True = (rc, pInfo, lg)"
  by (simp add: LibinputSetPropertyScrollButton_def Let_def split: sum.split)

lemma check_ClickMethod: "\<exists>rc lg. LibinputSetPropertyClickMethod pInfo val True = (rc, pInfo, lg)"
  by (simp add: LibinputSetPropertyClickMethod_def Let_def split: sum.split)

lemma check_MiddleEmulation: "\<exists>rc lg. LibinputSetPropertyMiddleEmulation pInfo val True = (rc, pInfo, lg)"
  by (simp add: LibinputSetPropertyMiddleEmulation_def Let_def split: sum.split)

lemma check_Halfkey: "\<exists>rc lg. LibinputSetPropertyHalfkey pInfo val True = (rc, pInfo, lg)"
  by (simp add: LibinputSetPropertyHalfkey_def Let_def split: sum.split)

lemma apply_after_check:
  assumes "\<exists>rc lg. r = (rc, pInfo, lg)"
  shows "\<exists>rc lg. apply_after_set True r = Inr (rc, pInfo, lg)"
  using assms by (auto simp: apply_after_set_def)

lemmas check_setters =
  check_Tap check_TapDragLock check_Calibration check_Accel check_NaturalScroll
  check_SendEvents check_LeftHanded check_ScrollMethods check_ScrollButton
  check_ClickMethod check_MiddleEmulation check_Halfkey

lemma SetProperty_check:
  "\<exists>rc lg. LibinputSetProperty A pInfo atom val True = Inr (rc, pInfo, lg)"
  unfolding LibinputSetProperty_def
  by (simp add: check_setters [THEN apply_after_check])

lemma set_properties_check:
  assumes "list_all (\<lambda>(atom, val, checkonly). checkonly) reqs"
  shows "\<exists>rcs. set_properties A pInfo reqs = Inr (rcs, pInfo)"
  using assms
proof (induction reqs)
  case Nil
  show ?case by simp
next
  case (Cons rq reqs)
  obtain atom val where rq: "rq = (atom, val, True)"
    using Cons.prems by (cases rq) auto
  obtain rc lg where one: "LibinputSetProperty A pInfo atom val True = Inr (rc, pInfo, lg)"
    using SetProperty_check by blast
  obtain rcs where rest: "set_properties A pInfo reqs = Inr (rcs, pInfo)"
    using Cons by auto
  show ?case
    by (simp add: rq one rest)
qed

text \<open>
  C3. A property request in check mode returns without a fault and leaves the \<open>pInfo\<close>
  as it was: the option set (tapping, tap drag lock, calibration matrix, speed, natural
  scrolling, send-events mode, left-handed, scroll method, scroll button, click method,
  middle emulation, key repeat) and everything else the driver holds for the device,
  whichever property is named and whatever the result. Any sequence of check-mode
  requests, handed over one after the other, leaves it unchanged as well.
\<close>

theorem check_only_changes_nothing:
  "(\<exists>rc lg. LibinputSetProperty A pInfo atom val True = Inr (rc, pInfo, lg))
   \<and> (list_all (\<lambda>(atom, val, checkonly). checkonly) reqs \<longrightarrow>
        (\<exists>rcs. set_properties A pInfo reqs = Inr (rcs, pInfo)))"
  using SetProperty_check [of A pInfo atom val] set_properties_check [of reqs A pInfo]
  by blast

theorem check_only_changes_nothing_witness:
  "list_all (\<lambda>(atom, val, checkonly). checkonly)
     [(prop_tap sample_atoms, bytes_value [1], True),
      (prop_accel sample_atoms, floats_value (prop_float sample_atoms) [5], True),
      (prop_tap sample_atoms, bytes_value [1], True)]
   \<and> (\<exists>rcs. set_properties sample_atoms (attached touchpad_device 1)
         [(prop_tap sample_atoms, bytes_value [1], True),
          (prop_accel sample_atoms, floats_value (prop_float sample_atoms) [5], True),
          (prop_tap sample_atoms, bytes_value [1], True)]
        = Inr (rcs, attached touchpad_device 1))
   \<and> fst (LibinputSetPropertyTap (attached touchpad_device 1) (bytes_value [1]) True) = Success
   \<and> fst (LibinputSetPropertyAccel sample_atoms (attached touchpad_device 1)
             (floats_value (prop_float sample_atoms) [5]) True) = BadValue"
  using check_only_changes_nothing
    [of sample_atoms "attached touchpad_device 1" "prop_tap sample_atoms" "bytes_value [1]"
        "[(prop_tap sample_atoms, bytes_value [1], True),
          (prop_accel sample_atoms, floats_value (prop_float sample_atoms) [5], True),
          (prop_tap sample_atoms, bytes_value [1], True)]"]
  by (simp add: LibinputSetPropertyTap_def LibinputSetPropertyAccel_def Let_def
      xf86libinput_check_device_def attached_def touchpad_device_def bytes_value_def
      floats_value_def val_format_def val_size_def data_BOOL_def data_float_def
      sample_atoms_def)























section \<open>Facts about option resolution\<close>

lemma store_caps: "capability_set (store rq d) = capability_set d"
  by (cases rq) (simp_all add: capability_set_def)

lemma config_set_caps:
  assumes "config_set d rq = (st, d')"
  shows "capability_set d' = capability_set d"
  using assms by (auto simp: config_set_def store_caps split: if_splits)

lemma parse_caps:
  shows "xf86libinput_parse_tap_option uo d = (v1, d', l) \<Longrightarrow>
           capability_set d' = capability_set d"
    and "xf86libinput_parse_tap_drag_lock_option uo d = (v1, d', l) \<Longrightarrow>
           capability_set d' = capability_set d"
    and "xf86libinput_parse_accel_option uo d = (v2, d', l) \<Longrightarrow>
           capability_set d' = capability_set d"
    and "xf86libinput_parse_natscroll_option uo d = (v1, d', l) \<Longrightarrow>
           capability_set d' = capability_set d"
    and "xf86libinput_parse_sendevents_option uo d = (v3, d', l) \<Longrightarrow>
           capability_set d' = capability_set d"
    and "xf86libinput_parse_lefthanded_option uo d = (v1, d', l) \<Longrightarrow>
           capability_set d' = capability_set d"
    and "xf86libinput_parse_scroll_option uo d = (v3, d', l) \<Longrightarrow>
           capability_set d' = capability_set d"
    and "xf86libinput_parse_scrollbutton_option uo d = (v3, d', l) \<Longrightarrow>
           capability_set d' = capability_set d"
    and "xf86libinput_parse_clickmethod_option uo d = (v3, d', l) \<Longrightarrow>
           capability_set d' = capability_set d"
    and "xf86libinput_parse_middleemulation_option uo d = (v1, d', l) \<Longrightarrow>
           capability_set d' = capability_set d"
    and "xf86libinput_parse_halfkey_option uo d = (v1, d', l) \<Longrightarrow>
           capability_set d' = capability_set d"
  by (auto simp: xf86libinput_parse_tap_option_def xf86libinput_parse_tap_drag_lock_option_def
      xf86libinput_parse_accel_option_def xf86libinput_parse_natscroll_option_def
      xf86libinput_parse_sendevents_option_def xf86libinput_parse_lefthanded_option_def
      xf86libinput_parse_scroll_option_def xf86libinput_parse_scrollbutton_option_def
      xf86libinput_parse_clickmethod_option_def xf86libinput_parse_middleemulation_option_def
      xf86libinput_parse_halfkey_option_def Let_def
      dest: config_set_caps split: if_splits prod.splits option.splits)

lemma parse_unsupported:
  shows "tap_get_finger_count d = 0 \<Longrightarrow> xf86libinput_parse_tap_option uo d = (FALSE, d, [])"
    and "tap_get_finger_count d = 0 \<Longrightarrow>
           xf86libinput_parse_tap_drag_lock_option uo d = (FALSE, d, [])"
    and "accel_is_available d = 0 \<Longrightarrow> xf86libinput_parse_accel_option uo d = (0, d, [])"
    and "scroll_has_natural_scroll d = 0 \<Longrightarrow>
           xf86libinput_parse_natscroll_option uo d = (FALSE, d, [])"
    and "send_events_get_modes d = LIBINPUT_CONFIG_SEND_EVENTS_ENABLED \<Longrightarrow>
           xf86libinput_parse_sendevents_option uo d =
             (LIBINPUT_CONFIG_SEND_EVENTS_ENABLED, d, [])"
    and "left_handed_is_available d = 0 \<Longrightarrow>
           xf86libinput_parse_lefthanded_option uo d = (FALSE, d, [])"
    and "scroll_get_methods d = LIBINPUT_CONFIG_SCROLL_NO_SCROLL \<Longrightarrow>
           xf86libinput_parse_scroll_option uo d = (LIBINPUT_CONFIG_SCROLL_NO_SCROLL, d, [])"
    and "scroll_get_methods d AND LIBINPUT_CONFIG_SCROLL_ON_BUTTON_DOWN = 0 \<Longrightarrow>
           xf86libinput_parse_scrollbutton_option uo d = (0, d, [])"
    and "click_get_methods d = LIBINPUT_CONFIG_CLICK_METHOD_NONE \<Longrightarrow>
           xf86libinput_parse_clickmethod_option uo d =
             (LIBINPUT_CONFIG_CLICK_METHOD_NONE, d, [])"
    and "middle_emulation_is_available d = 0 \<Longrightarrow>
           xf86libinput_parse_middleemulation_option uo d = (FALSE, d, [])"
    and "halfkey_is_available d = 0 \<Longrightarrow>
           xf86libinput_parse_halfkey_option uo d = (FALSE, d, [])"
    and "calibration_has_matrix d = 0 \<Longrightarrow>
           xf86libinput_parse_calibration_option sscanf uo d = (identity_matrix, d, [])"
  by (simp_all add: xf86libinput_parse_tap_option_def
      xf86libinput_parse_tap_drag_lock_option_def
      xf86libinput_parse_accel_option_def xf86libinput_parse_natscroll_option_def
      xf86libinput_parse_sendevents_option_def xf86libinput_parse_lefthanded_option_def
      xf86libinput_parse_scroll_option_def xf86libinput_parse_scrollbutton_option_def
      xf86libinput_parse_clickmethod_option_def xf86libinput_parse_middleemulation_option_def
      xf86libinput_parse_halfkey_option_def xf86libinput_parse_calibration_option_def
      identity_matrix_def)


lemma parse_options_unsupported:
  fixes d :: libinput_device and sscanf bm uo
  defines "opts \<equiv> fst (xf86libinput_parse_options sscanf bm uo d)"
  shows "tap_get_finger_count d = 0 \<Longrightarrow> tapping opts = FALSE \<and> tap_drag_lock opts = FALSE"
    and "accel_is_available d = 0 \<Longrightarrow> speed opts = 0"
    and "scroll_has_natural_scroll d = 0 \<Longrightarrow> natural_scrolling opts = FALSE"
    and "send_events_get_modes d = LIBINPUT_CONFIG_SEND_EVENTS_ENABLED \<Longrightarrow>
           sendevents opts = LIBINPUT_CONFIG_SEND_EVENTS_ENABLED"
    and "left_handed_is_available d = 0 \<Longrightarrow> left_handed opts = FALSE"
    and "scroll_get_methods d = LIBINPUT_CONFIG_SCROLL_NO_SCROLL \<Longrightarrow>
           scroll_method opts = LIBINPUT_CONFIG_SCROLL_NO_SCROLL"
    and "scroll_get_methods d AND LIBINPUT_CONFIG_SCROLL_ON_BUTTON_DOWN = 0 \<Longrightarrow>
           scroll_button opts = 0"
    and "click_get_methods d = LIBINPUT_CONFIG_CLICK_METHOD_NONE \<Longrightarrow>
           click_method opts = LIBINPUT_CONFIG_CLICK_METHOD_NONE"
    and "middle_emulation_is_available d = 0 \<Longrightarrow> middle_emulation opts = FALSE"
    and "halfkey_is_available d = 0 \<Longrightarrow> halfkey opts = FALSE"
    and "calibration_has_matrix d = 0 \<Longrightarrow> matrix opts = identity_matrix"
proof -
  obtain v1 d1 l1 where p1: "xf86libinput_parse_tap_option uo d = (v1, d1, l1)"
    by (cases "xf86libinput_parse_tap_option uo d")
  obtain v2 d2 l2 where p2: "xf86libinput_parse_tap_drag_lock_option uo d1 = (v2, d2, l2)"
    by (cases "xf86libinput_parse_tap_drag_lock_option uo d1")
  obtain v3 d3 l3 where p3: "xf86libinput_parse_accel_option uo d2 = (v3, d3, l3)"
    by (cases "xf86libinput_parse_accel_option uo d2")
  obtain v4 d4 l4 where p4: "xf86libinput_parse_natscroll_option uo d3 = (v4, d4, l4)"
    by (cases "xf86libinput_parse_natscroll_option uo d3")
  obtain v5 d5 l5 where p5: "xf86libinput_parse_sendevents_option uo d4 = (v5, d5, l5)"
    by (cases "xf86libinput_parse_sendevents_option uo d4")
  obtain v6 d6 l6 where p6: "xf86libinput_parse_lefthanded_option uo d5 = (v6, d6, l6)"
    by (cases "xf86libinput_parse_lefthanded_option uo d5")
  obtain v7 d7 l7 where p7: "xf86libinput_parse_scroll_option uo d6 = (v7, d7, l7)"
    by (cases "xf86libinput_parse_scroll_option uo d6")
  obtain v8 d8 l8 where p8: "xf86libinput_parse_scrollbutton_option uo d7 = (v8, d8, l8)"
    by (cases "xf86libinput_parse_scrollbutton_option uo d7")
  obtain v9 d9 l9 where p9: "xf86libinput_parse_clickmethod_option uo d8 = (v9, d9, l9)"
    by (cases "xf86libinput_parse_clickmethod_option uo d8")
  obtain v10 d10 l10 where
    p10: "xf86libinput_parse_middleemulation_option uo d9 = (v10, d10, l10)"
    by (cases "xf86libinput_parse_middleemulation_option uo d9")
  obtain v11 d11 l11 where p11: "xf86libinput_parse_halfkey_option uo d10 = (v11, d11, l11)"
    by (cases "xf86libinput_parse_halfkey_option uo d10")
  obtain v12 d12 l12 where
    p12: "xf86libinput_parse_calibration_option sscanf uo d11 = (v12, d12, l12)"
    by (cases "xf86libinput_parse_calibration_option sscanf uo d11")
  have k1: "capability_set d1 = capability_set d"
    using parse_caps(1) [OF p1] .
  have k2: "capability_set d2 = capability_set d"
    using parse_caps(2) [OF p2] k1 by simp
  have k3: "capability_set d3 = capability_set d"
    using parse_caps(3) [OF p3] k2 by simp
  have k4: "capability_set d4 = capability_set d"
    using parse_caps(4) [OF p4] k3 by simp
  have k5: "capability_set d5 = capability_set d"
    using parse_caps(5) [OF p5] k4 by simp
  have k6: "capability_set d6 = capability_set d"
    using parse_caps(6) [OF p6] k5 by simp
  have k7: "capability_set d7 = capability_set d"
    using parse_caps(7) [OF p7] k6 by simp
  have k8: "capability_set d8 = capability_set d"
    using parse_caps(8) [OF p8] k7 by simp
  have k9: "capability_set d9 = capability_set d"
    using parse_caps(9) [OF p9] k8 by simp
  have k10: "capability_set d10 = capability_set d"
    using parse_caps(10) [OF p10] k9 by simp
  have k11: "capability_set d11 = capability_set d"
    using parse_caps(11) [OF p11] k10 by simp
  have opts: "opts =
        \<lparr>tapping = v1, tap_drag_lock = v2, natural_scrolling = v4, left_handed = v6,
          middle_emulation = v10, halfkey = v11, sendevents = v5, scroll_button = v8,
          speed = v3, matrix = v12, scroll_method = v7, click_method = v9, btnmap = bm\<rparr>"
    unfolding opts_def xf86libinput_parse_options_def
    by (simp only: p1 p2 p3 p4 p5 p6 p7 p8 p9 p10 p11 p12 prod.case fst_conv)
  show "tap_get_finger_count d = 0 \<Longrightarrow> tapping opts = FALSE \<and> tap_drag_lock opts = FALSE"
    using p1 p2 k1 parse_unsupported(1) [of d uo] parse_unsupported(2) [of d1 uo]
    by (simp add: opts capability_set_def)
  show "accel_is_available d = 0 \<Longrightarrow> speed opts = 0"
    using p3 k2 parse_unsupported(3) [of d2 uo] by (simp add: opts capability_set_def)
  show "scroll_has_natural_scroll d = 0 \<Longrightarrow> natural_scrolling opts = FALSE"
    using p4 k3 parse_unsupported(4) [of d3 uo] by (simp add: opts capability_set_def)
  show "send_events_get_modes d = LIBINPUT_CONFIG_SEND_EVENTS_ENABLED \<Longrightarrow>
           sendevents opts = LIBINPUT_CONFIG_SEND_EVENTS_ENABLED"
    using p5 k4 parse_unsupported(5) [of d4 uo] by (simp add: opts capability_set_def)
  show "left_handed_is_available d = 0 \<Longrightarrow> left_handed opts = FALSE"
    using p6 k5 parse_unsupported(6) [of d5 uo] by (simp add: opts capability_set_def)
  show "scroll_get_methods d = LIBINPUT_CONFIG_SCROLL_NO_SCROLL \<Longrightarrow>
           scroll_method opts = LIBINPUT_CONFIG_SCROLL_NO_SCROLL"
    using p7 k6 parse_unsupported(7) [of d6 uo] by (simp add: opts capability_set_def)
  show "scroll_get_methods d AND LIBINPUT_CONFIG_SCROLL_ON_BUTTON_DOWN = 0 \<Longrightarrow>
           scroll_button opts = 0"
    using p8 k7 parse_unsupported(8) [of d7 uo] by (simp add: opts capability_set_def)
  show "click_get_methods d = LIBINPUT_CONFIG_CLICK_METHOD_NONE \<Longrightarrow>
           click_method opts = LIBINPUT_CONFIG_CLICK_METHOD_NONE"
    using p9 k8 parse_unsupported(9) [of d8 uo] by (simp add: opts capability_set_def)
  show "middle_emulation_is_available d = 0 \<Longrightarrow> middle_emulation opts = FALSE"
    using p10 k9 parse_unsupported(10) [of d9 uo] by (simp add: opts capability_set_def)
  show "halfkey_is_available d = 0 \<Longrightarrow> halfkey opts = FALSE"
    using p11 k10 parse_unsupported(11) [of d10 uo] by (simp add: opts capability_set_def)
  show "calibration_has_matrix d = 0 \<Longrightarrow> matrix opts = identity_matrix"
    using p12 k11 parse_unsupported(12) [of d11 sscanf uo] by (simp add: opts capability_set_def)
qed


text \<open>
  C8. For a device that lacks the capability of an option, the option's resolver
  returns the fixed disabled value whatever the user configured, and so does the option
  set that \<open>xf86libinput_parse_options\<close> builds at device open: \<open>FALSE\<close> for
  tapping, tap drag lock, natural scrolling, left-handed, middle emulation and key
  repeat, 0 for the acceleration speed, the enabled (zero) send-events mode, no scroll
  method, scroll button 0, no click method, and the identity calibration matrix.
\<close>

theorem unsupported_options_resolve_disabled:
  "(tap_get_finger_count d = 0 \<longrightarrow>
       xf86libinput_parse_tap_option uo d = (FALSE, d, [])
       \<and> xf86libinput_parse_tap_drag_lock_option uo d = (FALSE, d, [])
       \<and> tapping (fst (xf86libinput_parse_options sscanf bm uo d)) = FALSE
       \<and> tap_drag_lock (fst (xf86libinput_parse_options sscanf bm uo d)) = FALSE)
   \<and> (accel_is_available d = 0 \<longrightarrow>
       xf86libinput_parse_accel_option uo d = (0, d, [])
       \<and> speed (fst (xf86libinput_parse_options sscanf bm uo d)) = 0)
   \<and> (scroll_has_natural_scroll d = 0 \<longrightarrow>
       xf86libinput_parse_natscroll_option uo d = (FALSE, d, [])
       \<and> natural_scrolling (fst (xf86libinput_parse_options sscanf bm uo d)) = FALSE)
   \<and> (send_events_get_modes d = LIBINPUT_CONFIG_SEND_EVENTS_ENABLED \<longrightarrow>
       xf86libinput_parse_sendevents_option uo d = (LIBINPUT_CONFIG_SEND_EVENTS_ENABLED, d, [])
       \<and> sendevents (fst (xf86libinput_parse_options sscanf bm uo d))
           = LIBINPUT_CONFIG_SEND_EVENTS_ENABLED)
   \<and> (left_handed_is_available d = 0 \<longrightarrow>
       xf86libinput_parse_lefthanded_option uo d = (FALSE, d, [])
       \<and> left_handed (fst (xf86libinput_parse_options sscanf bm uo d)) = FALSE)
   \<and> (scroll_get_methods d = LIBINPUT_CONFIG_SCROLL_NO_SCROLL \<longrightarrow>
       xf86libinput_parse_scroll_option uo d = (LIBINPUT_CONFIG_SCROLL_NO_SCROLL, d, [])
       \<and> scroll_method (fst (xf86libinput_parse_options sscanf bm uo d))
           = LIBINPUT_CONFIG_SCROLL_NO_SCROLL)
   \<and> (scroll_get_methods d AND LIBINPUT_CONFIG_SCROLL_ON_BUTTON_DOWN = 0 \<longrightarrow>
       xf86libinput_parse_scrollbutton_option uo d = (0, d, [])
       \<and> scroll_button (fst (xf86libinput_parse_options sscanf bm uo d)) = 0)
   \<and> (click_get_methods d = LIBINPUT_CONFIG_CLICK_METHOD_NONE \<longrightarrow>
       xf86libinput_parse_clickmethod_option uo d = (LIBINPUT_CONFIG_CLICK_METHOD_NONE, d, [])
       \<and> click_method (fst (xf86libinput_parse_options sscanf bm uo d))
           = LIBINPUT_CONFIG_CLICK_METHOD_NONE)
   \<and> (middle_emulation_is_available d = 0 \<longrightarrow>
       xf86libinput_parse_middleemulation_option uo d = (FALSE, d, [])
       \<and> middle_emulation (fst (xf86libinput_parse_options sscanf bm uo d)) = FALSE)
   \<and> (halfkey_is_available d = 0 \<longrightarrow>
       xf86libinput_parse_halfkey_option uo d = (FALSE, d, [])
       \<and> halfkey (fst (xf86libinput_parse_options sscanf bm uo d)) = FALSE)
   \<and> (calibration_has_matrix d = 0 \<longrightarrow>
       xf86libinput_parse_calibration_option sscanf uo d = (identity_matrix, d, [])
       \<and> matrix (fst (xf86libinput_parse_options sscanf bm uo d)) = identity_matrix)"
proof -
  note one = parse_unsupported
  note all = parse_options_unsupported
  have c1: "tap_get_finger_count d = 0 \<longrightarrow>
       xf86libinput_parse_tap_option uo d = (FALSE, d, [])
       \<and> xf86libinput_parse_tap_drag_lock_option uo d = (FALSE, d, [])
       \<and> tapping (fst (xf86libinput_parse_options sscanf bm uo d)) = FALSE
       \<and> tap_drag_lock (fst (xf86libinput_parse_options sscanf bm uo d)) = FALSE"
    using one(1,2) all(1) by blast
  have c2: "accel_is_available d = 0 \<longrightarrow>
       xf86libinput_parse_accel_option uo d = (0, d, [])
       \<and> speed (fst (xf86libinput_parse_options sscanf bm uo d)) = 0"
    using one(3) all(2) by blast
  have c3: "scroll_has_natural_scroll d = 0 \<longrightarrow>
       xf86libinput_parse_natscroll_option uo d = (FALSE, d, [])
       \<and> natural_scrolling (fst (xf86libinput_parse_options sscanf bm uo d)) = FALSE"
    using one(4) all(3) by blast
  have c4: "send_events_get_modes d = LIBINPUT_CONFIG_SEND_EVENTS_ENABLED \<longrightarrow>
       xf86libinput_parse_sendevents_option uo d = (LIBINPUT_CONFIG_SEND_EVENTS_ENABLED, d, [])
       \<and> sendevents (fst (xf86libinput_parse_options sscanf bm uo d))
           = LIBINPUT_CONFIG_SEND_EVENTS_ENABLED"
    using one(5) all(4) by blast
  have c5: "left_handed_is_available d = 0 \<longrightarrow>
       xf86libinput_parse_lefthanded_option uo d = (FALSE, d, [])
       \<and> left_handed (fst (xf86libinput_parse_options sscanf bm uo d)) = FALSE"
    using one(6) all(5) by blast
  have c6: "scroll_get_methods d = LIBINPUT_CONFIG_SCROLL_NO_SCROLL \<longrightarrow>
       xf86libinput_parse_scroll_option uo d = (LIBINPUT_CONFIG_SCROLL_NO_SCROLL, d, [])
       \<and> scroll_method (fst (xf86libinput_parse_options sscanf bm uo d))
           = LIBINPUT_CONFIG_SCROLL_NO_SCROLL"
    using one(7) all(6) by blast
  have c7: "scroll_get_methods d AND LIBINPUT_CONFIG_SCROLL_ON_BUTTON_DOWN = 0 \<longrightarrow>
       xf86libinput_parse_scrollbutton_option uo d = (0, d, [])
       \<and> scroll_button (fst (xf86libinput_parse_options sscanf bm uo d)) = 0"
    using one(8) all(7) by blast
  have c8: "click_get_methods d = LIBINPUT_CONFIG_CLICK_METHOD_NONE \<longrightarrow>
       xf86libinput_parse_clickmethod_option uo d = (LIBINPUT_CONFIG_CLICK_METHOD_NONE, d, [])
       \<and> click_method (fst (xf86libinput_parse_options sscanf bm uo d))
           = LIBINPUT_CONFIG_CLICK_METHOD_NONE"
    using one(9) all(8) by blast
  have c9: "middle_emulation_is_available d = 0 \<longrightarrow>
       xf86libinput_parse_middleemulation_option uo d = (FALSE, d, [])
       \<and> middle_emulation (fst (xf86libinput_parse_options sscanf bm uo d)) = FALSE"
    using one(10) all(9) by blast
  have c10: "halfkey_is_available d = 0 \<longrightarrow>
       xf86libinput_parse_halfkey_option uo d = (FALSE, d, [])
       \<and> halfkey (fst (xf86libinput_parse_options sscanf bm uo d)) = FALSE"
    using one(11) all(10) by blast
  have c11: "calibration_has_matrix d = 0 \<longrightarrow>
       xf86libinput_parse_calibration_option sscanf uo d = (identity_matrix, d, [])
       \<and> matrix (fst (xf86libinput_parse_options sscanf bm uo d)) = identity_matrix"
    using one(12) all(11) by blast
  from c1 c2 c3 c4 c5 c6 c7 c8 c9 c10 c11 show ?thesis
    by - (intro conjI, assumption+)
qed

theorem unsupported_options_resolve_disabled_witness:
  "tap_get_finger_count plain_device = 0 \<and> accel_is_available plain_device = 0
   \<and> scroll_has_natural_scroll plain_device = 0
   \<and> send_events_get_modes plain_device = LIBINPUT_CONFIG_SEND_EVENTS_ENABLED
   \<and> left_handed_is_available plain_device = 0
   \<and> scroll_get_methods plain_device = LIBINPUT_CONFIG_SCROLL_NO_SCROLL
   \<and> scroll_get_methods plain_device AND LIBINPUT_CONFIG_SCROLL_ON_BUTTON_DOWN = 0
   \<and> click_get_methods plain_device = LIBINPUT_CONFIG_CLICK_METHOD_NONE
   \<and> middle_emulation_is_available plain_device = 0
   \<and> halfkey_is_available plain_device = 0
   \<and> calibration_has_matrix plain_device = 0
   \<and> opt_Tapping everything_on = Some True
   \<and> fst (xf86libinput_parse_options sample_sscanf [] everything_on plain_device) =
       \<lparr>tapping = 0, tap_drag_lock = 0, natural_scrolling = 0, left_handed = 0,
        middle_emulation = 0, halfkey = 0, sendevents = 0, scroll_button = 0, speed = 0,
        matrix = [1, 0, 0, 0, 1, 0, 0, 0, 1], scroll_method = 0, click_method = 0,
        btnmap = []\<rparr>"
proof -
  have bm: "btnmap (fst (xf86libinput_parse_options sample_sscanf [] everything_on plain_device))
              = []"
    by (simp add: xf86libinput_parse_options_def split: prod.split)
  have caps: "tap_get_finger_count plain_device = 0 \<and> accel_is_available plain_device = 0
   \<and> scroll_has_natural_scroll plain_device = 0
   \<and> send_events_get_modes plain_device = LIBINPUT_CONFIG_SEND_EVENTS_ENABLED
   \<and> left_handed_is_available plain_device = 0
   \<and> scroll_get_methods plain_device = LIBINPUT_CONFIG_SCROLL_NO_SCROLL
   \<and> scroll_get_methods plain_device AND LIBINPUT_CONFIG_SCROLL_ON_BUTTON_DOWN = 0
   \<and> click_get_methods plain_device = LIBINPUT_CONFIG_CLICK_METHOD_NONE
   \<and> middle_emulation_is_available plain_device = 0
   \<and> halfkey_is_available plain_device = 0
   \<and> calibration_has_matrix plain_device = 0
   \<and> opt_Tapping everything_on = Some True"
    by (simp add: plain_device_def everything_on_def LIBINPUT_CONFIG_SEND_EVENTS_ENABLED_def
        LIBINPUT_CONFIG_SCROLL_NO_SCROLL_def LIBINPUT_CONFIG_CLICK_METHOD_NONE_def)
  show ?thesis
    using unsupported_options_resolve_disabled
      [of plain_device everything_on sample_sscanf "[]"] caps bm
    by (simp add: options.equality FALSE_def identity_matrix_def
        LIBINPUT_CONFIG_SEND_EVENTS_ENABLED_def
        LIBINPUT_CONFIG_SCROLL_NO_SCROLL_def LIBINPUT_CONFIG_CLICK_METHOD_NONE_def)
qed

lemma length_overwrite [simp]: "length (overwrite src dst) = length dst"
  by (simp add: overwrite_def)

lemma overwrite_full: "length src = length dst \<Longrightarrow> overwrite src dst = src"
  by (simp add: overwrite_def)

lemma length_calibration_get_matrix [simp]:
  "length (calibration_get_matrix d m) = length m"
  by (simp add: calibration_get_matrix_def)

lemma drop_overwrite:
  assumes "length src \<le> n" and "n \<le> length dst"
  shows "drop n (overwrite src dst) = drop n dst"
proof -
  have "overwrite src dst = src @ drop (length src) dst"
    using assms by (simp add: overwrite_def)
  then show ?thesis
    using assms by simp
qed

lemma calibration_get_matrix_last_row:
  "drop 6 (calibration_get_matrix d identity_matrix) = [0, 0, 1]"
proof -
  have "drop 6 (overwrite (take 6 (calibration_get_matrix6 d)) identity_matrix)
        = drop 6 identity_matrix"
    by (rule drop_overwrite) (simp_all add: identity_matrix_def)
  then show ?thesis
    by (simp add: calibration_get_matrix_def identity_matrix_def)
qed

lemma calibration_get_matrix_identity:
  "calibration_get_matrix6 d = [1, 0, 0, 0, 1, 0] \<Longrightarrow>
     calibration_get_matrix d identity_matrix = identity_matrix"
  by (simp add: calibration_get_matrix_def overwrite_def identity_matrix_def)

lemma parse_calibration_cases:
  fixes d :: libinput_device and sscanf uo
  defines "R \<equiv> xf86libinput_parse_calibration_option sscanf uo d"
  shows "calibration_has_matrix d \<noteq> 0 \<Longrightarrow> opt_CalibrationMatrix uo = None \<Longrightarrow>
           R = (calibration_get_matrix d identity_matrix, d, [])"
    and "calibration_has_matrix d \<noteq> 0 \<Longrightarrow> opt_CalibrationMatrix uo = Some str \<Longrightarrow>
           length (sscanf str) < 9 \<Longrightarrow>
           R = (calibration_get_matrix d identity_matrix, d,
                [(X_ERROR, ''Invalid matrix: %s, using default'')])"
    and "calibration_has_matrix d \<noteq> 0 \<Longrightarrow> opt_CalibrationMatrix uo = Some str \<Longrightarrow>
           9 \<le> length (sscanf str) \<Longrightarrow>
           respond d (calibration_set_matrix (take 9 (sscanf str)))
             = LIBINPUT_CONFIG_STATUS_SUCCESS \<Longrightarrow>
           R = (take 9 (sscanf str),
                d\<lparr>calibration_get_matrix6 := take 6 (sscanf str)\<rparr>, [])"
    and "calibration_has_matrix d \<noteq> 0 \<Longrightarrow> opt_CalibrationMatrix uo = Some str \<Longrightarrow>
           9 \<le> length (sscanf str) \<Longrightarrow>
           respond d (calibration_set_matrix (take 9 (sscanf str)))
             \<noteq> LIBINPUT_CONFIG_STATUS_SUCCESS \<Longrightarrow>
           R = (calibration_get_matrix d identity_matrix, d,
                [(X_ERROR, ''Failed to apply matrix: %s, using default'')])"
proof -
  have full: "overwrite (take 9 (sscanf str)) (calibration_get_matrix d [1, 0, 0, 0, 1, 0, 0, 0, 1])
              = take 9 (sscanf str)" if "9 \<le> length (sscanf str)"
    using that by (simp add: overwrite_full)
  show "calibration_has_matrix d \<noteq> 0 \<Longrightarrow> opt_CalibrationMatrix uo = None \<Longrightarrow>
           R = (calibration_get_matrix d identity_matrix, d, [])"
    by (simp add: R_def xf86libinput_parse_calibration_option_def identity_matrix_def)
  show "calibration_has_matrix d \<noteq> 0 \<Longrightarrow> opt_CalibrationMatrix uo = Some str \<Longrightarrow>
           length (sscanf str) < 9 \<Longrightarrow>
           R = (calibration_get_matrix d identity_matrix, d,
                [(X_ERROR, ''Invalid matrix: %s, using default'')])"
    by (simp add: R_def xf86libinput_parse_calibration_option_def identity_matrix_def Let_def)
  show "calibration_has_matrix d \<noteq> 0 \<Longrightarrow> opt_CalibrationMatrix uo = Some str \<Longrightarrow>
           9 \<le> length (sscanf str) \<Longrightarrow>
           respond d (calibration_set_matrix (take 9 (sscanf str)))
             = LIBINPUT_CONFIG_STATUS_SUCCESS \<Longrightarrow>
           R = (take 9 (sscanf str),
                d\<lparr>calibration_get_matrix6 := take 6 (sscanf str)\<rparr>, [])"
    by (simp add: R_def xf86libinput_parse_calibration_option_def Let_def full
        config_set_def min_def)
  show "calibration_has_matrix d \<noteq> 0 \<Longrightarrow> opt_CalibrationMatrix uo = Some str \<Longrightarrow>
           9 \<le> length (sscanf str) \<Longrightarrow>
           respond d (calibration_set_matrix (take 9 (sscanf str)))
             \<noteq> LIBINPUT_CONFIG_STATUS_SUCCESS \<Longrightarrow>
           R = (calibration_get_matrix d identity_matrix, d,
                [(X_ERROR, ''Failed to apply matrix: %s, using default'')])"
    by (simp add: R_def xf86libinput_parse_calibration_option_def Let_def full
        config_set_def identity_matrix_def)
qed


lemma parse_calibration_length:
  "length (fst (xf86libinput_parse_calibration_option sscanf uo d)) = 9"
proof (cases "calibration_has_matrix d = 0")
  case True
  then show ?thesis
    by (simp add: parse_unsupported(12) identity_matrix_def)
next
  case has: False
  show ?thesis
  proof (cases "opt_CalibrationMatrix uo")
    case None
    then show ?thesis
      using has by (simp add: parse_calibration_cases(1) identity_matrix_def)
  next
    case (Some str)
    show ?thesis
    proof (cases "length (sscanf str) < 9")
      case True
      then show ?thesis
        using has Some by (simp add: parse_calibration_cases(2) identity_matrix_def)
    next
      case False
      then have nine: "9 \<le> length (sscanf str)" by simp
      show ?thesis
      proof (cases "respond d (calibration_set_matrix (take 9 (sscanf str)))
                      = LIBINPUT_CONFIG_STATUS_SUCCESS")
        case True
        then show ?thesis
          using has Some nine by (simp add: parse_calibration_cases(3))
      next
        case False
        then show ?thesis
          using has Some nine by (simp add: parse_calibration_cases(4) identity_matrix_def)
      qed
    qed
  qed
qed

text \<open>
  C2. Resolving the calibration option yields nine entries. A device without
  calibration gets the identity matrix. For a device with calibration the device's
  matrix is kept when the option is not set, when the string converts to fewer than nine
  values (with the error \<open>Invalid matrix\<close> logged), and when it converts to nine values
  that the device refuses (with the error \<open>Failed to apply matrix\<close> logged); when the
  device accepts the nine values the resolved matrix has the user's first six entries.
  The device's matrix as the resolver reads it, and the identity, end in 0, 0, 1.
\<close>

theorem calibration_option_resolution:
  "length (fst (xf86libinput_parse_calibration_option sscanf uo d)) = 9
   \<and> (calibration_has_matrix d = 0 \<longrightarrow>
        xf86libinput_parse_calibration_option sscanf uo d = (identity_matrix, d, []))
   \<and> (calibration_has_matrix d \<noteq> 0 \<and> opt_CalibrationMatrix uo = None \<longrightarrow>
        xf86libinput_parse_calibration_option sscanf uo d
          = (calibration_get_matrix d identity_matrix, d, []))
   \<and> (calibration_has_matrix d \<noteq> 0 \<and> opt_CalibrationMatrix uo = Some str
        \<and> length (sscanf str) < 9 \<longrightarrow>
        xf86libinput_parse_calibration_option sscanf uo d
          = (calibration_get_matrix d identity_matrix, d,
             [(X_ERROR, ''Invalid matrix: %s, using default'')]))
   \<and> (calibration_has_matrix d \<noteq> 0 \<and> opt_CalibrationMatrix uo = Some str
        \<and> 9 \<le> length (sscanf str)
        \<and> respond d (calibration_set_matrix (take 9 (sscanf str)))
             = LIBINPUT_CONFIG_STATUS_SUCCESS \<longrightarrow>
        take 6 (fst (xf86libinput_parse_calibration_option sscanf uo d)) = take 6 (sscanf str)
        \<and> snd (snd (xf86libinput_parse_calibration_option sscanf uo d)) = [])
   \<and> (calibration_has_matrix d \<noteq> 0 \<and> opt_CalibrationMatrix uo = Some str
        \<and> 9 \<le> length (sscanf str)
        \<and> respond d (calibration_set_matrix (take 9 (sscanf str)))
             \<noteq> LIBINPUT_CONFIG_STATUS_SUCCESS \<longrightarrow>
        xf86libinput_parse_calibration_option sscanf uo d
          = (calibration_get_matrix d identity_matrix, d,
             [(X_ERROR, ''Failed to apply matrix: %s, using default'')]))
   \<and> drop 6 (calibration_get_matrix d identity_matrix) = [0, 0, 1]
   \<and> drop 6 identity_matrix = [0, 0, 1]
   \<and> (calibration_get_matrix6 d = [1, 0, 0, 0, 1, 0] \<longrightarrow>
        calibration_get_matrix d identity_matrix = identity_matrix)"
proof -
  have c1: "calibration_has_matrix d = 0 \<longrightarrow>
        xf86libinput_parse_calibration_option sscanf uo d = (identity_matrix, d, [])"
    using parse_unsupported(12) by blast
  have c2: "calibration_has_matrix d \<noteq> 0 \<and> opt_CalibrationMatrix uo = None \<longrightarrow>
        xf86libinput_parse_calibration_option sscanf uo d
          = (calibration_get_matrix d identity_matrix, d, [])"
    using parse_calibration_cases(1) by blast
  have c3: "calibration_has_matrix d \<noteq> 0 \<and> opt_CalibrationMatrix uo = Some str
        \<and> length (sscanf str) < 9 \<longrightarrow>
        xf86libinput_parse_calibration_option sscanf uo d
          = (calibration_get_matrix d identity_matrix, d,
             [(X_ERROR, ''Invalid matrix: %s, using default'')])"
    using parse_calibration_cases(2) by blast
  have c4: "calibration_has_matrix d \<noteq> 0 \<and> opt_CalibrationMatrix uo = Some str
        \<and> 9 \<le> length (sscanf str)
        \<and> respond d (calibration_set_matrix (take 9 (sscanf str)))
             = LIBINPUT_CONFIG_STATUS_SUCCESS \<longrightarrow>
        take 6 (fst (xf86libinput_parse_calibration_option sscanf uo d)) = take 6 (sscanf str)
        \<and> snd (snd (xf86libinput_parse_calibration_option sscanf uo d)) = []"
    by (simp add: parse_calibration_cases(3))
  have c5: "calibration_has_matrix d \<noteq> 0 \<and> opt_CalibrationMatrix uo = Some str
        \<and> 9 \<le> length (sscanf str)
        \<and> respond d (calibration_set_matrix (take 9 (sscanf str)))
             \<noteq> LIBINPUT_CONFIG_STATUS_SUCCESS \<longrightarrow>
        xf86libinput_parse_calibration_option sscanf uo d
          = (calibration_get_matrix d identity_matrix, d,
             [(X_ERROR, ''Failed to apply matrix: %s, using default'')])"
    using parse_calibration_cases(4) by blast
  have c6: "drop 6 identity_matrix = [0, 0, 1]"
    by (simp add: identity_matrix_def)
  have c7: "calibration_get_matrix6 d = [1, 0, 0, 0, 1, 0] \<longrightarrow>
        calibration_get_matrix d identity_matrix = identity_matrix"
    using calibration_get_matrix_identity by blast
  from parse_calibration_length [of sscanf uo d] c1 c2 c3 c4 c5
    calibration_get_matrix_last_row [of d] c6 c7
  show ?thesis
    by - (intro conjI, assumption+)
qed

theorem calibration_option_resolution_witness:
  "calibration_has_matrix touchpad_device \<noteq> 0
   \<and> calibration_get_matrix6 touchpad_device = [1, 0, 0, 0, 1, 0]
   \<and> calibration_get_matrix touchpad_device identity_matrix = [1, 0, 0, 0, 1, 0, 0, 0, 1]
   \<and> opt_CalibrationMatrix everything_on = Some ''0.5 0 0 0 1 0 0 0 1''
   \<and> 9 \<le> length (sample_sscanf ''0.5 0 0 0 1 0 0 0 1'')
   \<and> respond touchpad_device
        (calibration_set_matrix (take 9 (sample_sscanf ''0.5 0 0 0 1 0 0 0 1'')))
       = LIBINPUT_CONFIG_STATUS_SUCCESS
   \<and> fst (xf86libinput_parse_calibration_option sample_sscanf everything_on touchpad_device)
       = [1 / 2, 0, 0, 0, 1, 0, 0, 0, 1]
   \<and> opt_CalibrationMatrix (everything_on\<lparr>opt_CalibrationMatrix := Some ''0.5 0 0''\<rparr>)
       = Some ''0.5 0 0''
   \<and> length (sample_sscanf ''0.5 0 0'') < 9
   \<and> xf86libinput_parse_calibration_option sample_sscanf
        (everything_on\<lparr>opt_CalibrationMatrix := Some ''0.5 0 0''\<rparr>) touchpad_device
       = ([1, 0, 0, 0, 1, 0, 0, 0, 1], touchpad_device,
          [(X_ERROR, ''Invalid matrix: %s, using default'')])
   \<and> calibration_has_matrix plain_device = 0
   \<and> fst (xf86libinput_parse_calibration_option sample_sscanf everything_on plain_device)
       = [1, 0, 0, 0, 1, 0, 0, 0, 1]"
  using calibration_option_resolution
      [of sample_sscanf everything_on touchpad_device "''0.5 0 0 0 1 0 0 0 1''"]
    calibration_option_resolution
      [of sample_sscanf "everything_on\<lparr>opt_CalibrationMatrix := Some ''0.5 0 0''\<rparr>"
          touchpad_device "''0.5 0 0''"]
    calibration_option_resolution
      [of sample_sscanf everything_on plain_device "''0.5 0 0 0 1 0 0 0 1''"]
  by (simp add: xf86libinput_parse_calibration_option_def Let_def calibration_get_matrix_def
      overwrite_def config_set_def touchpad_device_def plain_device_def
      everything_on_def sample_sscanf_def identity_matrix_def)

theorem calibration_option_resolution_counterexample:
  "calibration_has_matrix refusing_touchscreen \<noteq> 0
   \<and> calibration_get_matrix refusing_touchscreen identity_matrix = [1, 0, 0, 0, 1, 0, 0, 0, 1]
   \<and> opt_CalibrationMatrix everything_on = Some ''0.5 0 0 0 1 0 0 0 1''
   \<and> sample_sscanf ''0.5 0 0 0 1 0 0 0 1'' = [1 / 2, 0, 0, 0, 1, 0, 0, 0, 1]
   \<and> xf86libinput_parse_calibration_option sample_sscanf everything_on refusing_touchscreen
       = ([1, 0, 0, 0, 1, 0, 0, 0, 1], refusing_touchscreen,
          [(X_ERROR, ''Failed to apply matrix: %s, using default'')])
   \<and> fst (xf86libinput_parse_calibration_option sample_sscanf everything_on
            refusing_touchscreen)
       \<noteq> [1 / 2, 0, 0, 0, 1, 0, 0, 0, 1]
   \<and> calibration_has_matrix touchpad_device \<noteq> 0
   \<and> sample_sscanf ''1 0 0 0 1 0 5 5 5'' = [1, 0, 0, 0, 1, 0, 5, 5, 5]
   \<and> fst (xf86libinput_parse_calibration_option sample_sscanf
            (everything_on\<lparr>opt_CalibrationMatrix := Some ''1 0 0 0 1 0 5 5 5''\<rparr>)
            touchpad_device)
       = [1, 0, 0, 0, 1, 0, 5, 5, 5]
   \<and> drop 6 (fst (xf86libinput_parse_calibration_option sample_sscanf
            (everything_on\<lparr>opt_CalibrationMatrix := Some ''1 0 0 0 1 0 5 5 5''\<rparr>)
            touchpad_device))
       \<noteq> [0, 0, 1]"
  by (simp add: xf86libinput_parse_calibration_option_def Let_def calibration_get_matrix_def
      overwrite_def config_set_def refusing_touchscreen_def plain_device_def
      touchpad_device_def everything_on_def sample_sscanf_def identity_matrix_def)

end
